theory Spec2Isabelle
  imports Complex_Main "HOL-Library.Product_Lexorder"
begin

section \<open>Geometry encoder: \<open>SurveyData.line_wkt\<close> and \<open>SurveyData.point_wkt\<close>\<close>

text \<open>
  The two static methods build Shapely geometries from (longitude, latitude) tuples,
  project them with a pyproj transformer and return their WKT text. The geometry
  library is not part of the repository: its three operations the methods call are the
  fields of \<open>geolib\<close>. A coordinate tuple is a value of the type \<open>'p\<close>, compared
  with \<open>=\<close> as Python compares tuples in \<open>x not in points\<close>.
\<close>

datatype 'p geometry = Point 'p | LineString "'p list"

record 'p geolib =
  transform :: "string \<Rightarrow> 'p \<Rightarrow> 'p"
  is_valid :: "'p geometry \<Rightarrow> bool"
  wkt :: "'p geometry \<Rightarrow> string"

datatype py_error = AttributeError | ValueError

text \<open>\<open>ops.transform(f, geom)\<close> applies \<open>f\<close> to every coordinate of the geometry.\<close>

fun ops_transform :: "('p \<Rightarrow> 'p) \<Rightarrow> 'p geometry \<Rightarrow> 'p geometry" where
  "ops_transform f (Point p) = Point (f p)"
| "ops_transform f (LineString ps) = LineString (map f ps)"

text \<open>
  \<^verbatim>\<open>points = []
[points.append(x) for x in line if x not in points]\<close>
  The condition reads the list the comprehension is appending to, so the loop is a
  left fold over \<open>line\<close> with \<open>points\<close> as its state.
\<close>

definition remove_duplicates :: "'p list \<Rightarrow> 'p list" where
  "remove_duplicates line =
     foldl (\<lambda>points x. if x \<notin> set points then points @ [x] else points) [] line"

text \<open>
  The body of the loop over \<open>lines\<close>, for one \<open>line\<close>. The last \<open>else\<close> of the
  source sets \<open>value = None\<close> and the next statement reads \<open>value.is_valid\<close>, which
  raises \<open>AttributeError\<close> on \<open>None\<close>: that path is the \<open>Inl\<close> below.
\<close>

definition line_wkt_one :: "'p geolib \<Rightarrow> string \<Rightarrow> 'p list \<Rightarrow> py_error + string option" where
  "line_wkt_one G crs line =
     (if length line > 0 then
        (let points = remove_duplicates line;
             v = (if length points \<ge> 2 then
                    Some (ops_transform (transform G crs) (LineString points))
                  else if length points = 1 then
                    Some (ops_transform (transform G crs) (Point (points ! 0)))
                  else None)
         in case v of
              None \<Rightarrow> Inl AttributeError
            | Some g \<Rightarrow> if is_valid G g then Inr (Some (wkt G g)) else Inr None)
      else Inr None)"

fun line_wkt_loop ::
  "'p geolib \<Rightarrow> string \<Rightarrow> 'p list list \<Rightarrow> string option list \<Rightarrow> py_error + string option list" where
  "line_wkt_loop G crs [] wkts = Inr wkts"
| "line_wkt_loop G crs (line # lines) wkts =
     (case line_wkt_one G crs line of
        Inl e \<Rightarrow> Inl e
      | Inr w \<Rightarrow> line_wkt_loop G crs lines (wkts @ [w]))"

definition line_wkt :: "'p geolib \<Rightarrow> string \<Rightarrow> 'p list list \<Rightarrow> py_error + string option list" where
  "line_wkt G crs lines = line_wkt_loop G crs lines []"

text \<open>
  \<open>point_wkt\<close>: one geometry per coordinate tuple; an invalid one gives \<open>np.NaN\<close>
  (\<open>None\<close> here).
\<close>

definition point_wkt_one :: "'p geolib \<Rightarrow> string \<Rightarrow> 'p \<Rightarrow> string option" where
  "point_wkt_one G crs xy =
     (let v = ops_transform (transform G crs) (Point xy)
      in if is_valid G v then Some (wkt G v) else None)"

definition point_wkt :: "'p geolib \<Rightarrow> string \<Rightarrow> 'p list \<Rightarrow> string option list" where
  "point_wkt G crs coordinates = map (point_wkt_one G crs) coordinates"

text \<open>
  What the specification says of one line: the distinct points in the order of their
  first occurrence, a line through two or more of them, a point for one, null for
  none and for an invalid geometry.
\<close>

definition keep_first :: "'p list \<Rightarrow> 'p list" where
  "keep_first line = rev (remdups (rev line))"

definition encode_line :: "'p geolib \<Rightarrow> string \<Rightarrow> 'p list \<Rightarrow> string option" where
  "encode_line G crs coords =
     (let pts = keep_first coords in
      if pts = [] then None
      else
        (let g = (if 2 \<le> length pts then LineString (map (transform G crs) pts)
                  else Point (transform G crs (hd pts)))
         in if is_valid G g then Some (wkt G g) else None))"

section \<open>Data frames\<close>

text \<open>
  A pandas cell is null (\<open>NaN\<close>, \<open>pd.NA\<close>, \<open>None\<close>), a string (a label of a
  categorical column or the text of an object column) or a number. Numbers of every
  dtype of the data-sets (\<open>Int8\<close>, \<open>Int16\<close>, \<open>int64\<close>, \<open>float64\<close>) are rationals:
  Python compares an \<open>int\<close> and a \<open>float\<close> by value, and the only arithmetic of the
  module is the quotient \<open>1 / travelers_hh\<close>, taken exactly here.

  A row of a data frame gives every column name its cell; a column the frame does not
  have (one that \<open>pd.concat\<close> fills with \<open>NaN\<close>, or that an assignment through
  \<open>df.loc\<close> creates) reads as \<open>Null\<close>. A data frame is the list of its rows, and every
  statement of the table methods but the surrogate keys works on each row by itself.
\<close>

datatype cell = Null | Str string | Num rat

type_synonym row = "string \<Rightarrow> cell"

type_synonym frame = "row list"

text \<open>The returned frame \<open>df[[...]]\<close>: its columns, in order, with their cells.\<close>

type_synonym out_row = "(string \<times> cell) list"

text \<open>
  Masks. \<open>Series.isnull()\<close>, \<open>Series.isin(values)\<close> (no list of the module holds a
  null), and the comparisons of a numeric column with a number, which are false on
  \<open>NaN\<close>. \<open>df.a == "x"\<close> and \<open>df.a != "x"\<close> are \<open>=\<close> and \<open>\<noteq>\<close> on cells:
  a null cell is different from every label.
\<close>

definition isnull :: "cell \<Rightarrow> bool" where
  "isnull x = (x = Null)"

definition isin :: "cell \<Rightarrow> cell list \<Rightarrow> bool" where
  "isin x vals = (x \<in> set vals)"

fun num_gt :: "cell \<Rightarrow> rat \<Rightarrow> bool" where
  "num_gt (Num x) k = (x > k)"
| "num_gt Null k = False"
| "num_gt (Str s) k = False"

fun num_ge :: "cell \<Rightarrow> rat \<Rightarrow> bool" where
  "num_ge (Num x) k = (x \<ge> k)"
| "num_ge Null k = False"
| "num_ge (Str s) k = False"

text \<open>
  \<open>df.loc[mask, cols] = v\<close>: on the rows where the mask holds, the columns \<open>cols\<close>
  get the cell \<open>v\<close>. \<open>df[cols] = df[cols].fillna(v)\<close> is the same with the mask
  taken per column.
\<close>

definition loc :: "(row \<Rightarrow> bool) \<Rightarrow> string list \<Rightarrow> cell \<Rightarrow> row \<Rightarrow> row" where
  "loc test cols v r = (if test r then (\<lambda>c. if c \<in> set cols then v else r c) else r)"

definition fillna :: "string list \<Rightarrow> cell \<Rightarrow> row \<Rightarrow> row" where
  "fillna cols v r = (\<lambda>c. if c \<in> set cols then (if isnull (r c) then v else r c) else r c)"

text \<open>\<open>pd.read_csv(..., usecols=cols)\<close> keeps the listed columns of the file.\<close>

definition usecols :: "string list \<Rightarrow> row \<Rightarrow> row" where
  "usecols cols r = (\<lambda>c. if c \<in> set cols then r c else Null)"

text \<open>
  \<^verbatim>\<open>for field in mappings:
    df[field] = pd.Categorical(df[field].map(mappings[field]),
                               categories=mappings[field].values())\<close>
  \<open>Series.map\<close> with a dictionary looks every cell up, the null cell under the key
  \<open>pd.NA\<close> (\<open>np.NaN\<close>) when the dictionary has it, and a cell that is no key becomes
  \<open>NaN\<close>. Every label of the dictionary is a category, so \<open>pd.Categorical\<close> keeps
  what \<open>map\<close> returned. A dictionary is the list of its items in source order.
\<close>

definition map_cell :: "(cell \<times> cell) list \<Rightarrow> cell \<Rightarrow> cell" where
  "map_cell mapping x = (case map_of mapping x of None \<Rightarrow> Null | Some label \<Rightarrow> label)"

definition recode_field :: "row \<Rightarrow> string \<times> (cell \<times> cell) list \<Rightarrow> row" where
  "recode_field r fm = r(fst fm := map_cell (snd fm) (r (fst fm)))"

definition recode :: "(string \<times> (cell \<times> cell) list) list \<Rightarrow> row \<Rightarrow> row" where
  "recode mappings r = foldl recode_field r mappings"

text \<open>The statements of a method that follow the recoding, run in source order.\<close>

definition run :: "(row \<Rightarrow> row) list \<Rightarrow> row \<Rightarrow> row" where
  "run steps r = foldl (\<lambda>r step. step r) r steps"

text \<open>
  \<open>df[col] = np.arange(len(df))\<close>: the surrogate key of a row is its position,
  from 0.
\<close>

definition arange :: "string \<Rightarrow> frame \<Rightarrow> frame" where
  "arange col df = map (\<lambda>(i, r). r(col := Num (of_nat i))) (enumerate 0 df)"

text \<open>
  \<open>df.rename(columns={old: new, ...})\<close> and the final \<open>df[[...]]\<close>. After the
  renaming a name reads the column that was renamed to it, or the column of that name
  if the dictionary does not rename it away.
\<close>

definition rename :: "(string \<times> string) list \<Rightarrow> row \<Rightarrow> row" where
  "rename columns r =
     (\<lambda>c. case map_of (map (\<lambda>(old, new). (new, old)) columns) c of
            Some old \<Rightarrow> r old
          | None \<Rightarrow> if c \<in> set (map fst columns) then Null else r c)"

definition select :: "string list \<Rightarrow> row \<Rightarrow> out_row" where
  "select cols r = map (\<lambda>c. (c, r c)) cols"

text \<open>
  \<open>df[col] = self.point_wkt(zip(df[lng], df[lat]), crs)\<close>: the geometry column of a
  row is the encoding of its own coordinate pair, \<open>NaN\<close> when the geometry is
  invalid.
\<close>

definition set_point_wkt ::
  "(cell \<times> cell) geolib \<Rightarrow> string \<Rightarrow> string \<Rightarrow> string \<Rightarrow> string \<Rightarrow> row \<Rightarrow> row" where
  "set_point_wkt G crs col lng lat r =
     r(col := (case point_wkt_one G crs (r lng, r lat) of None \<Rightarrow> Null | Some w \<Rightarrow> Str w))"

text \<open>
  \<open>df[col] = df[col].str.replace("\|", "", regex=True)\<close> deletes every bar from a
  string; the \<open>.str\<close> accessor gives \<open>NaN\<close> for a cell that is not a string.
\<close>

definition strip_bars :: "string \<Rightarrow> row \<Rightarrow> row" where
  "strip_bars col r =
     r(col := (case r col of Str s \<Rightarrow> Str (filter (\<lambda>ch. ch \<noteq> CHR ''|'') s)
                           | Null \<Rightarrow> Null
                           | Num x \<Rightarrow> Null))"

text \<open>
  \<open>df.loc[condition, col] = f(df.loc[condition, ...])\<close>: the assigned cell is computed
  from the row. \<open>reciprocal\<close> is \<open>1 / x\<close>; the one statement that divides does so
  under a condition that makes \<open>x\<close> one of the numbers 1 to 10.
\<close>

definition loc_with :: "(row \<Rightarrow> bool) \<Rightarrow> string \<Rightarrow> (row \<Rightarrow> cell) \<Rightarrow> row \<Rightarrow> row" where
  "loc_with test col f r = (if test r then r(col := f r) else r)"

fun reciprocal :: "cell \<Rightarrow> cell" where
  "reciprocal (Num x) = Num (1 / x)"
| "reciprocal Null = Null"
| "reciprocal (Str s) = Null"

text \<open>A column of a returned row; a name the row does not have reads as null.\<close>

definition column :: "out_row \<Rightarrow> string \<Rightarrow> cell" where
  "column out c = (case map_of out c of None \<Rightarrow> Null | Some x \<Rightarrow> x)"

section \<open>The day table: \<open>SurveyData.day\<close>\<close>

text \<open>
  The columns read from the two files, the constants the method gives the columns the
  AT file lacks, and the code tables.
\<close>

definition day_at_usecols :: "string list" where
  "day_at_usecols = [
      ''personid'', ''hhid'', ''traveldate'', ''daynum'', ''travel_dow'', ''day_iscomplete'',
      ''completed_at'', ''revised_at'', ''revised_count'', ''survey_status'', ''trips_yesno'',
      ''notravel'', ''notravel_secondary'', ''num_trips'', ''num_answer'', ''telework_time'',
      ''shop_time'', ''toll_no'', ''toll_express'', ''deliver_package'', ''deliver_food'',
      ''deliver_work'']"

definition day_sdrts_usecols :: "string list" where
  "day_sdrts_usecols = [
      ''personid'', ''hhid'', ''traveldate'', ''daynum'', ''travel_dow'', ''data_source'',
      ''day_hhcomplete'', ''day_iscomplete'', ''completed_at'', ''revised_at'', ''revised_count'',
      ''diary_start_pt'', ''diary_end_pt'', ''diary_duration'', ''survey_status'', ''proxy'',
      ''trips_yesno'', ''notravel'', ''notravel_secondary'', ''notravel_other'', ''num_trips'',
      ''num_answer'', ''loc_start'', ''loc_start_other'', ''loc_end'', ''loc_end_other'',
      ''telework_time'', ''shop_time'', ''toll_no'', ''toll_express'', ''deliver_package'',
      ''deliver_food'', ''deliver_work'', ''multiday_factor'', ''multiday_weight_456x'']"

definition day_at_defaults :: "row \<Rightarrow> row" where
  "day_at_defaults r = r(
        ''data_source'' := Num 1,
        ''day_hhcomplete'' := Num 99,
        ''notravel_other'' := Str ''Not Applicable'',
        ''loc_start'' := Num 99,
        ''loc_start_other'' := Str ''Not Applicable'',
        ''loc_end'' := Num 99,
        ''loc_end_other'' := Str ''Not Applicable'')"

definition day_map_travel_dow :: "(cell \<times> cell) list" where
  "day_map_travel_dow = [
      (Num 1, Str ''Monday''),
      (Num 2, Str ''Tuesday''),
      (Num 3, Str ''Wednesday''),
      (Num 4, Str ''Thursday''),
      (Num 5, Str ''Friday''),
      (Num 6, Str ''Saturday''),
      (Num 7, Str ''Sunday''),
      (Null, Str ''Missing'')]"

definition day_map_data_source :: "(cell \<times> cell) list" where
  "day_map_data_source = [
      (Num 1, Str ''rMove''),
      (Num 2, Str ''Online''),
      (Null, Str ''Missing'')]"

definition day_map_day_hhcomplete :: "(cell \<times> cell) list" where
  "day_map_day_hhcomplete = [
      (Num 0, Str ''No''),
      (Num 1, Str ''Yes''),
      (Num 99, Str ''Not Applicable''),
      (Null, Str ''Missing'')]"

definition day_map_day_iscomplete :: "(cell \<times> cell) list" where
  "day_map_day_iscomplete = [
      (Num 0, Str ''No''),
      (Num 1, Str ''Yes''),
      (Null, Str ''Missing'')]"

definition day_map_survey_status :: "(cell \<times> cell) list" where
  "day_map_survey_status = [
      (Num 0, Str ''Diary/daily summary survey not complete''),
      (Num 1, Str ''Diary/daily summary survey complete''),
      (Num 2, Str ''Diary/daily summary survey not asked''),
      (Null, Str ''Not Applicable'')]"

definition day_map_proxy :: "(cell \<times> cell) list" where
  "day_map_proxy = [
      (Num 1, Str ''No''),
      (Num 2, Str ''Present while other member filled out survey''),
      (Num 3, Str ''Not present while other member filled out survey''),
      (Null, Str ''Not Applicable'')]"

definition day_map_trips_yesno :: "(cell \<times> cell) list" where
  "day_map_trips_yesno = [
      (Num 1, Str ''Yes''),
      (Num 2, Str ''No''),
      (Null, Str ''Missing'')]"

definition day_map_notravel :: "(cell \<times> cell) list" where
  "day_map_notravel = [
      (Num 1, Str ''Did travel, but rMove did not collect any trips''),
      (Num 2, Str ''Not scheduled to work/took day off''),
      (Num 3, Str ''Worked at home (for pay)''),
      (Num 4, Str ''Worked around home (not for pay)''),
      (Num 5, Str ''Kids were on school vacation/break''),
      (Num 6, Str ''No available transportation''),
      (Num 7, Str ''Was sick or caring for another person''),
      (Num 8, Str ''Was waiting for visitor/delivery''),
      (Num 9, Str ''Other reason (no reason given)''),
      (Num 10, Str ''Stayed on base all day''),
      (Num 97, Str ''Other reason''),
      (Num (- 9998), Str ''Participant non-response''),
      (Num (- 9999), Str ''Technical error'')]"

definition day_map_notravel_secondary :: "(cell \<times> cell) list" where
  "day_map_notravel_secondary = [
      (Num 1, Str ''Did travel, but rMove did not collect any trips''),
      (Num 2, Str ''Not scheduled to work/took day off''),
      (Num 3, Str ''Worked at home (for pay)''),
      (Num 4, Str ''Worked around home (not for pay)''),
      (Num 5, Str ''Kids were on school vacation/break''),
      (Num 6, Str ''No available transportation''),
      (Num 7, Str ''Was sick or caring for another person''),
      (Num 8, Str ''Was waiting for visitor/delivery''),
      (Num 9, Str ''Other reason (no reason given)''),
      (Num 10, Str ''Stayed on base all day''),
      (Num 97, Str ''Other reason''),
      (Num (- 9998), Str ''Participant non-response''),
      (Num (- 9999), Str ''Technical error''),
      (Null, Str ''Not Applicable'')]"

definition day_map_loc_start :: "(cell \<times> cell) list" where
  "day_map_loc_start = [
      (Num 1, Str ''Home''),
      (Num 2, Str ''Work (Primary)''),
      (Num 3, Str ''Work (Second Jobs)''),
      (Num 97, Str ''Other''),
      (Num 99, Str ''Not Applicable'')]"

definition day_map_loc_end :: "(cell \<times> cell) list" where
  "day_map_loc_end = [
      (Num 1, Str ''Home''),
      (Num 2, Str ''Work (Primary)''),
      (Num 3, Str ''Work (Second Jobs)''),
      (Num 97, Str ''Other''),
      (Num 99, Str ''Not Applicable'')]"

definition day_map_toll_no :: "(cell \<times> cell) list" where
  "day_map_toll_no = [
      (Num 0, Str ''Yes''),
      (Num 1, Str ''No''),
      (Num (- 9998), Str ''Participant non-response''),
      (Num (- 9999), Str ''Technical error''),
      (Null, Str ''Not Applicable'')]"

definition day_map_toll_express :: "(cell \<times> cell) list" where
  "day_map_toll_express = [
      (Num 0, Str ''No''),
      (Num 1, Str ''Yes''),
      (Num (- 9998), Str ''Participant non-response''),
      (Num (- 9999), Str ''Technical error''),
      (Null, Str ''Not Applicable'')]"

definition day_map_deliver_package :: "(cell \<times> cell) list" where
  "day_map_deliver_package = [
      (Num 0, Str ''No''),
      (Num 1, Str ''Yes''),
      (Num (- 9998), Str ''Participant non-response''),
      (Num (- 9999), Str ''Technical error''),
      (Null, Str ''Not Applicable'')]"

definition day_map_deliver_food :: "(cell \<times> cell) list" where
  "day_map_deliver_food = [
      (Num 0, Str ''No''),
      (Num 1, Str ''Yes''),
      (Num (- 9998), Str ''Participant non-response''),
      (Num (- 9999), Str ''Technical error''),
      (Null, Str ''Not Applicable'')]"

definition day_map_deliver_work :: "(cell \<times> cell) list" where
  "day_map_deliver_work = [
      (Num 0, Str ''No''),
      (Num 1, Str ''Yes''),
      (Num (- 9998), Str ''Participant non-response''),
      (Num (- 9999), Str ''Technical error''),
      (Null, Str ''Not Applicable'')]"

definition day_mappings :: "(string \<times> (cell \<times> cell) list) list" where
  "day_mappings = [
      (''travel_dow'', day_map_travel_dow),
      (''data_source'', day_map_data_source),
      (''day_hhcomplete'', day_map_day_hhcomplete),
      (''day_iscomplete'', day_map_day_iscomplete),
      (''survey_status'', day_map_survey_status),
      (''proxy'', day_map_proxy),
      (''trips_yesno'', day_map_trips_yesno),
      (''notravel'', day_map_notravel),
      (''notravel_secondary'', day_map_notravel_secondary),
      (''loc_start'', day_map_loc_start),
      (''loc_end'', day_map_loc_end),
      (''toll_no'', day_map_toll_no),
      (''toll_express'', day_map_toll_express),
      (''deliver_package'', day_map_deliver_package),
      (''deliver_food'', day_map_deliver_food),
      (''deliver_work'', day_map_deliver_work)]"


text \<open>
  The statements after the recoding. The three \<open>cat.add_categories\<close> calls register
  labels and change no cell; every label assigned below is, at that point, a category
  of its column or the column holds text.
\<close>

definition day_steps :: "(row \<Rightarrow> row) list" where
  "day_steps = [
      loc (\<lambda>r. num_gt (r ''num_trips'') 0)
        [''trips_yesno''] (Str ''Yes''),
      loc (\<lambda>r. r ''num_trips'' = Num 0)
        [''trips_yesno''] (Str ''No''),
      loc (\<lambda>r. r ''num_trips'' = Num 0 \<and> isnull (r ''notravel''))
        [''notravel''] (Str ''Missing''),
      loc (\<lambda>r. num_gt (r ''num_trips'') 0 \<and> isnull (r ''notravel''))
        [''notravel''] (Str ''Not Applicable''),
      loc (\<lambda>r. r ''notravel'' \<noteq> Str ''Other reason'' \<and> r ''notravel_secondary'' \<noteq> Str ''Other reason'')
        [''notravel_other''] (Str ''Not Applicable''),
      loc (\<lambda>r. (r ''notravel'' = Str ''Other reason'' \<or> r ''notravel_secondary'' = Str ''Other reason'') \<and> isnull (r ''notravel_other''))
        [''notravel_other''] (Str ''Missing''),
      loc (\<lambda>r. r ''data_source'' = Str ''rMove'')
        [''loc_start'', ''loc_start_other'', ''loc_end'', ''loc_end_other''] (Str ''Not Applicable''),
      loc (\<lambda>r. r ''data_source'' = Str ''Online'' \<and> isnull (r ''loc_start''))
        [''loc_start''] (Str ''Missing''),
      loc (\<lambda>r. r ''data_source'' = Str ''Online'' \<and> isnull (r ''loc_end''))
        [''loc_end''] (Str ''Missing''),
      loc (\<lambda>r. r ''data_source'' = Str ''Online'' \<and> r ''loc_start'' \<noteq> Str ''Other'')
        [''loc_start_other''] (Str ''Not Applicable''),
      loc (\<lambda>r. r ''data_source'' = Str ''Online'' \<and> r ''loc_end'' \<noteq> Str ''Other'')
        [''loc_end_other''] (Str ''Not Applicable'')]"

definition day_rename :: "(string \<times> string) list" where
  "day_rename = [
      (''personid'', ''person_id''), (''hhid'', ''household_id''),
      (''traveldate'', ''travel_date''), (''daynum'', ''travel_day_number''),
      (''travel_dow'', ''travel_day_of_week''),
      (''day_hhcomplete'', ''completed_household_survey''),
      (''day_iscomplete'', ''completed_person_survey''), (''completed_at'', ''completed_date''),
      (''revised_at'', ''revised_at''), (''diary_start_pt'', ''diary_start_time''),
      (''diary_end_pt'', ''diary_end_time''), (''survey_status'', ''survey_status''),
      (''proxy'', ''proxy''), (''trips_yesno'', ''made_trips''),
      (''notravel'', ''no_trips_reason_1''), (''notravel_secondary'', ''no_trips_reason_2''),
      (''notravel_other'', ''no_trips_reason_specify_other''), (''num_trips'', ''number_trips''),
      (''num_answer'', ''number_surveys''), (''loc_start'', ''start_location''),
      (''loc_start_other'', ''start_location_other''), (''loc_end'', ''end_location''),
      (''loc_end_other'', ''end_location_other''), (''telework_time'', ''time_telework''),
      (''shop_time'', ''time_shop''), (''toll_no'', ''toll_road''),
      (''toll_express'', ''toll_road_express''),
      (''multiday_factor'', ''weight_household_multiday_factor''),
      (''multiday_weight_456x'', ''weight_person_multiday_456x'')]"

definition day_columns :: "string list" where
  "day_columns = [
      ''day_id'', ''person_id'', ''household_id'', ''travel_date'', ''travel_day_number'',
      ''travel_day_of_week'', ''data_source'', ''completed_household_survey'',
      ''completed_person_survey'', ''completed_date'', ''revised_at'', ''revised_count'',
      ''diary_start_time'', ''diary_end_time'', ''diary_duration'', ''survey_status'', ''proxy'',
      ''made_trips'', ''no_trips_reason_1'', ''no_trips_reason_2'',
      ''no_trips_reason_specify_other'', ''number_trips'', ''number_surveys'', ''start_location'',
      ''start_location_other'', ''end_location'', ''end_location_other'', ''time_telework'',
      ''time_shop'', ''toll_road'', ''toll_road_express'', ''deliver_package'', ''deliver_food'',
      ''deliver_work'', ''weight_household_multiday_factor'', ''weight_person_multiday_456x'']"


text \<open>
  The method: read both files, complete the AT rows, concatenate (SDRTS first), recode,
  run the statements, number the rows, rename and return the listed columns.
\<close>

definition day_concat :: "frame \<Rightarrow> frame \<Rightarrow> frame" where
  "day_concat sdrts at_df =
     map (usecols day_sdrts_usecols) sdrts
     @ map (\<lambda>r. day_at_defaults (usecols day_at_usecols r)) at_df"

definition day_row :: "row \<Rightarrow> row" where
  "day_row r = run day_steps (recode day_mappings r)"

definition day :: "frame \<Rightarrow> frame \<Rightarrow> out_row list" where
  "day sdrts at_df =
     map (\<lambda>r. select day_columns (rename day_rename r))
       (arange ''day_id'' (map day_row (day_concat sdrts at_df)))"

section \<open>The person table: \<open>SurveyData.persons\<close>\<close>

text \<open>
  The columns read from the two files, the constants the method gives the columns the
  AT file lacks, and the code tables.
\<close>

definition persons_at_usecols :: "string list" where
  "persons_at_usecols = [
      ''personid'', ''hhid'', ''pernum'', ''traveldate_start'', ''rmove_participant'',
      ''relationship'', ''gender'', ''age'', ''employment'', ''jobs_count'', ''student'',
      ''education'', ''license'', ''military'', ''ethnicity_amindian_alaska'',
      ''ethnicity_asian'', ''ethnicity_black'', ''ethnicity_hispanic'',
      ''ethnicity_hawaiian_pacific'', ''ethnicity_white'', ''ethnicity_other'',
      ''ethnicity_prefernot'', ''disability'', ''height'', ''weight_lbs'', ''physical_activity'',
      ''transit_freq'', ''transitpass'', ''schooltype'', ''school_freq'', ''other_school'',
      ''school_mode'', ''daycare_early'', ''daycare_late'', ''job_type'', ''occupation'',
      ''industry'', ''hours_work'', ''commute_freq'', ''commute_mode'', ''work_flex'',
      ''work_park_pay'', ''work_park_cost'', ''work_park_cost_dk'', ''work_park_ease'',
      ''telecommute_freq'', ''commute_subsidy_none'', ''commute_subsidy_parking'',
      ''commute_subsidy_transit'', ''commute_subsidy_vanpool'', ''commute_subsidy_cash'',
      ''commute_subsidy_other'', ''commute_subsidy_specify'', ''secondhome'',
      ''secondhome_address'', ''secondhome_lat'', ''secondhome_lng'', ''mainschool_address'',
      ''mainschool_lat'', ''mainschool_lng'', ''secondschool_address'', ''secondschool_lat'',
      ''secondschool_lng'', ''work_address'', ''work_lat'', ''work_lng'', ''secondwork_address'',
      ''secondwork_lat'', ''secondwork_lng'', ''numdays_complete'', ''day1_complete'',
      ''day2_complete'', ''day3_complete'', ''day4_complete'', ''day5_complete'',
      ''day6_complete'', ''day7_complete'']"

definition persons_sdrts_usecols :: "string list" where
  "persons_sdrts_usecols = [
      ''personid'', ''hhid'', ''pernum'', ''traveldate_start'', ''rmove_participant'',
      ''relationship'', ''gender'', ''age'', ''employment'', ''jobs_count'', ''student'',
      ''education'', ''license'', ''military'', ''ethnicity_amindian_alaska'',
      ''ethnicity_asian'', ''ethnicity_black'', ''ethnicity_hispanic'',
      ''ethnicity_hawaiian_pacific'', ''ethnicity_white'', ''ethnicity_other'',
      ''ethnicity_prefernot'', ''disability'', ''height'', ''weight_lbs'', ''physical_activity'',
      ''transit_freq'', ''transitpass'', ''schooltype'', ''school_freq'', ''other_school'',
      ''school_mode'', ''daycare_early'', ''daycare_late'', ''job_type'', ''occupation'',
      ''industry'', ''hours_work'', ''commute_freq'', ''commute_mode'', ''work_flex'',
      ''work_park_pay'', ''work_park_cost'', ''work_park_cost_dk'', ''work_park_ease'',
      ''telecommute_freq'', ''commute_subsidy_none'', ''commute_subsidy_parking'',
      ''commute_subsidy_transit'', ''commute_subsidy_vanpool'', ''commute_subsidy_cash'',
      ''commute_subsidy_other'', ''commute_subsidy_specify'', ''secondhome'',
      ''secondhome_address'', ''secondhome_lat'', ''secondhome_lng'', ''mainschool_address'',
      ''mainschool_lat'', ''mainschool_lng'', ''secondschool_address'', ''secondschool_lat'',
      ''secondschool_lng'', ''work_address'', ''work_lat'', ''work_lng'', ''secondwork_address'',
      ''secondwork_lat'', ''secondwork_lng'', ''smartphone_type'', ''smartphone_age'',
      ''child_smartphone'', ''callcenter_diary'', ''mobile_diary'', ''activated_rmove'',
      ''numdays_complete'', ''day1_complete'', ''day2_complete'', ''day3_complete'',
      ''day4_complete'', ''day5_complete'', ''day6_complete'', ''day7_complete'']"

definition persons_at_defaults :: "row \<Rightarrow> row" where
  "persons_at_defaults r = r(
        ''smartphone_type'' := Num 99,
        ''smartphone_age'' := Num 99,
        ''child_smartphone'' := Num 99,
        ''callcenter_diary'' := Num 99,
        ''mobile_diary'' := Num 99)"

definition persons_map_rmove_participant :: "(cell \<times> cell) list" where
  "persons_map_rmove_participant = [
      (Num 0, Str ''No''),
      (Num 1, Str ''Yes''),
      (Null, Str ''Missing'')]"

definition persons_map_relationship :: "(cell \<times> cell) list" where
  "persons_map_relationship = [
      (Num 0, Str ''Self''),
      (Num 1, Str ''Husband/Wife/Partner''),
      (Num 2, Str ''Son/Daughter/In-law''),
      (Num 3, Str ''Mother/Father/In-law''),
      (Num 4, Str ''Brother/Sister/In-law''),
      (Num 5, Str ''Other relative''),
      (Num 6, Str ''Roommate/Friend''),
      (Num 7, Str ''Household help''),
      (Num 97, Str ''Other''),
      (Null, Str ''Missing'')]"

definition persons_map_gender :: "(cell \<times> cell) list" where
  "persons_map_gender = [
      (Num 1, Str ''Male''),
      (Num 2, Str ''Female''),
      (Null, Str ''Missing'')]"

definition persons_map_age :: "(cell \<times> cell) list" where
  "persons_map_age = [
      (Num 1, Str ''Under 5 years old''),
      (Num 2, Str ''5-15 years''),
      (Num 3, Str ''16-17 years''),
      (Num 4, Str ''18-24 years''),
      (Num 5, Str ''25-34 years''),
      (Num 6, Str ''35-44 years''),
      (Num 7, Str ''45-49 years''),
      (Num 8, Str ''50-54 years''),
      (Num 9, Str ''55-59 years''),
      (Num 10, Str ''60-64 years''),
      (Num 11, Str ''65-74 years''),
      (Num 12, Str ''75-79 years''),
      (Num 13, Str ''80-84 years''),
      (Num 14, Str ''85 years or older''),
      (Null, Str ''Missing'')]"

definition persons_map_employment :: "(cell \<times> cell) list" where
  "persons_map_employment = [
      (Num 1, Str ''Employed full-time (paid) 35+ hours/week''),
      (Num 2, Str ''Employed part-time (paid) up to 35 hours/week''),
      (Num 3, Str ''Unpaid volunteer or intern''),
      (Num 4, Str ''Not currently employed''),
      (Null, Str ''Missing'')]"

definition persons_map_jobs_count :: "(cell \<times> cell) list" where
  "persons_map_jobs_count = [
      (Num 0, Str ''0 (age 16+)''),
      (Num 1, Str ''1''),
      (Num 2, Str ''2''),
      (Num 3, Str ''3''),
      (Num 4, Str ''4''),
      (Num 5, Str ''5+''),
      (Null, Str ''Missing'')]"

definition persons_map_student :: "(cell \<times> cell) list" where
  "persons_map_student = [
      (Num 1, Str ''Not a student''),
      (Num 2, Str ''Part-time student''),
      (Num 3, Str ''Full-time student''),
      (Null, Str ''Missing'')]"

definition persons_map_education :: "(cell \<times> cell) list" where
  "persons_map_education = [
      (Num 1, Str ''Less than high school''),
      (Num 2, Str ''High school graduate/GED''),
      (Num 3, Str ''Some college''),
      (Num 4, Str ''Vocational/technical training''),
      (Num 5, Str ''Associates degree''),
      (Num 6, Str ''Bachelor degree''),
      (Num 7, Str ''Graduate/post-graduate degree''),
      (Null, Str ''Missing'')]"

definition persons_map_license :: "(cell \<times> cell) list" where
  "persons_map_license = [
      (Num 1, Str ''Yes''),
      (Num 2, Str ''No''),
      (Null, Str ''Missing'')]"

definition persons_map_military :: "(cell \<times> cell) list" where
  "persons_map_military = [
      (Num 1, Str ''No current affiliation with the military''),
      (Num 2, Str ''Active duty within the San Diego region''),
      (Num 3, Str ''Active duty outside of the San Diego region''),
      (Num 4, Str ''Reserve or National Guard''),
      (Num 5, Str ''Department of Defense civilian workforce and/or contractor''),
      (Num 6, Str ''Veteran''),
      (Num 97, Str ''Other affiliation (e.g., spouse or parent of active military)''),
      (Null, Str ''Missing'')]"

definition persons_map_ethnicity_amindian_alaska :: "(cell \<times> cell) list" where
  "persons_map_ethnicity_amindian_alaska = [
      (Num 0, Str ''No''),
      (Num 1, Str ''Yes''),
      (Null, Str ''Missing'')]"

definition persons_map_ethnicity_asian :: "(cell \<times> cell) list" where
  "persons_map_ethnicity_asian = [
      (Num 0, Str ''No''),
      (Num 1, Str ''Yes''),
      (Null, Str ''Missing'')]"

definition persons_map_ethnicity_black :: "(cell \<times> cell) list" where
  "persons_map_ethnicity_black = [
      (Num 0, Str ''No''),
      (Num 1, Str ''Yes''),
      (Null, Str ''Missing'')]"

definition persons_map_ethnicity_hispanic :: "(cell \<times> cell) list" where
  "persons_map_ethnicity_hispanic = [
      (Num 0, Str ''No''),
      (Num 1, Str ''Yes''),
      (Null, Str ''Missing'')]"

definition persons_map_ethnicity_hawaiian_pacific :: "(cell \<times> cell) list" where
  "persons_map_ethnicity_hawaiian_pacific = [
      (Num 0, Str ''No''),
      (Num 1, Str ''Yes''),
      (Null, Str ''Missing'')]"

definition persons_map_ethnicity_white :: "(cell \<times> cell) list" where
  "persons_map_ethnicity_white = [
      (Num 0, Str ''No''),
      (Num 1, Str ''Yes''),
      (Null, Str ''Missing'')]"

definition persons_map_ethnicity_other :: "(cell \<times> cell) list" where
  "persons_map_ethnicity_other = [
      (Num 0, Str ''No''),
      (Num 1, Str ''Yes''),
      (Null, Str ''Missing'')]"

definition persons_map_ethnicity_prefernot :: "(cell \<times> cell) list" where
  "persons_map_ethnicity_prefernot = [
      (Num 0, Str ''No''),
      (Num 1, Str ''Yes''),
      (Null, Str ''Missing'')]"

definition persons_map_disability :: "(cell \<times> cell) list" where
  "persons_map_disability = [
      (Num 1, Str ''No''),
      (Num 2, Str ''Yes''),
      (Num 99, Str ''Prefer not to answer''),
      (Null, Str ''Missing'')]"

definition persons_map_physical_activity :: "(cell \<times> cell) list" where
  "persons_map_physical_activity = [
      (Num 1, Str ''I rarely or never do any physical activity''),
      (Num 2, Str ''I do some light or moderate physical activities''),
      (Num 3, Str ''I do some vigorous physical activities''),
      (Num 99, Str ''Prefer not to answer''),
      (Null, Str ''Missing'')]"

definition persons_map_transit_freq :: "(cell \<times> cell) list" where
  "persons_map_transit_freq = [
      (Num 1, Str ''6-7 days a week''),
      (Num 2, Str ''4-5 days a week''),
      (Num 3, Str ''2-3 days a week''),
      (Num 4, Str ''1 day a week''),
      (Num 5, Str ''1-3 days per month''),
      (Num 6, Str ''Less than monthly''),
      (Num 7, Str ''Never''),
      (Null, Str ''Missing'')]"

definition persons_map_transitpass :: "(cell \<times> cell) list" where
  "persons_map_transitpass = [
      (Num 1, Str ''Monthly Adult Regional Compass Card: $72''),
      (Num 2, Str ''Monthly Adult Premium Compass Card: $100''),
      (Num 3, Str ''Monthly Adult COASTER Compass Card: by zone''),
      (Num 4, Str ''MTS College Semester Pass''),
      (Num 5, Str ''MTS College Monthly Pass''),
      (Num 6, Str ''UC San Diego Annual U-Pass''),
      (Num 7, Str ''Monthly Youth Regional Compass Card: $36''),
      (Num 8, Str ''Monthly Youth Premium Compass Card: $50''),
      (Num 9, Str ''Monthly Youth COASTER Compass Card: $82.50''),
      (Num 10, Str ''Monthly Senior/Disabled/Medicare Regional Compass Card: $18''),
      (Num 11, Str ''Monthly Senior/Disabled/Medicare Premium Compass Card: $25''),
      (Num 12, Str ''Monthly Senior/Disabled/Medicare COASTER Compass Card: $41.25''),
      (Num 13, Str ''Other transit pass (e.g., free, employee, etc.)''),
      (Num 14, Str ''Do not have a transit pass''),
      (Num 98, Str ''Do not know''),
      (Null, Str ''Missing'')]"

definition persons_map_schooltype :: "(cell \<times> cell) list" where
  "persons_map_schooltype = [
      (Num 1, Str ''Cared for at home''),
      (Num 2, Str ''Daycare outside home''),
      (Num 3, Str ''Preschool''),
      (Num 4, Str ''Kindergarten-Grade 5 (public or private)''),
      (Num 5, Str ''Kindergarten-Grade 5 (home school)''),
      (Num 6, Str ''Grade 6-Grade 8 (public or private)''),
      (Num 7, Str ''Grade 6-Grade 8 (home school)''),
      (Num 8, Str ''Grade 9-Grade 12 (public or private)''),
      (Num 9, Str ''Grade 9-Grade 12 (home school)''),
      (Num 10, Str ''Vocational/technical school''),
      (Num 11, Str ''2-year college''),
      (Num 12, Str ''4-year college''),
      (Num 13, Str ''Graduate or professional school''),
      (Num 97, Str ''Other''),
      (Null, Str ''Missing'')]"

definition persons_map_school_freq :: "(cell \<times> cell) list" where
  "persons_map_school_freq = [
      (Num 1, Str ''6-7 days a week''),
      (Num 2, Str ''5 days a week''),
      (Num 3, Str ''3-4 days a week''),
      (Num 4, Str ''1-2 days a week''),
      (Num 5, Str ''1-3 days per month''),
      (Num 6, Str ''Less than monthly''),
      (Num 7, Str ''Never, only takes online classes''),
      (Null, Str ''Missing'')]"

definition persons_map_other_school :: "(cell \<times> cell) list" where
  "persons_map_other_school = [
      (Num 1, Str ''Never, only 1 school location''),
      (Num 2, Str ''1 or more days a week''),
      (Num 3, Str ''A few times per month''),
      (Num 4, Str ''Less than monthly''),
      (Null, Str ''Missing'')]"

definition persons_map_school_mode :: "(cell \<times> cell) list" where
  "persons_map_school_mode = [
      (Num 1, Str ''Drive alone''),
      (Num 2, Str ''Carpool with only family/household member(s)''),
      (Num 3, Str ''Carpool with at least one person not in household''),
      (Num 4, Str ''Motorcycle/moped/scooter''),
      (Num 5, Str ''Walk/jog/wheelchair''),
      (Num 6, Str ''Bicycle''),
      (Num 7, Str ''School bus''),
      (Num 8, Str ''Bus (public transit)''),
      (Num 9, Str ''Private shuttle bus''),
      (Num 10, Str ''Vanpool''),
      (Num 11, Str ''Light Rail (e.g., Trolley, SPRINTER)''),
      (Num 12, Str ''Intercity Rail (e.g., COASTER, Amtrak)''),
      (Num 13, Str ''Paratransit''),
      (Num 14, Str ''Taxi or other hired car service (e.g., Lyft, Uber)''),
      (Num 97, Str ''Other''),
      (Null, Str ''Missing'')]"

definition persons_map_daycare_early :: "(cell \<times> cell) list" where
  "persons_map_daycare_early = [
      (Num 1, Str ''Before 6 AM''),
      (Num 2, Str ''6:00 AM''),
      (Num 3, Str ''6:15 AM''),
      (Num 4, Str ''6:30 AM''),
      (Num 5, Str ''6:45 AM''),
      (Num 6, Str ''7:00 AM''),
      (Num 7, Str ''7:15 AM''),
      (Num 8, Str ''7:30 AM''),
      (Num 9, Str ''7:45 AM''),
      (Num 10, Str ''8:00 AM''),
      (Num 11, Str ''8:15 AM''),
      (Num 12, Str ''8:30 AM''),
      (Num 13, Str ''After 8:30 AM''),
      (Null, Str ''Missing'')]"

definition persons_map_daycare_late :: "(cell \<times> cell) list" where
  "persons_map_daycare_late = [
      (Num 1, Str ''Before 5 PM''),
      (Num 2, Str ''5:00 PM''),
      (Num 3, Str ''5:15 PM''),
      (Num 4, Str ''5:30 PM''),
      (Num 5, Str ''5:45 PM''),
      (Num 6, Str ''6:00 PM''),
      (Num 7, Str ''6:15 PM''),
      (Num 8, Str ''6:30 PM''),
      (Num 9, Str ''6:45 PM''),
      (Num 10, Str ''7:00 PM''),
      (Num 11, Str ''7:15 PM''),
      (Num 12, Str ''7:30 PM''),
      (Num 13, Str ''After 7:30 PM''),
      (Null, Str ''Missing'')]"

definition persons_map_job_type :: "(cell \<times> cell) list" where
  "persons_map_job_type = [
      (Num 1, Str ''Has one work location (outside of home, may also telework)''),
      (Num 2, Str ''Work location regularly varies (work in different offices or jobsites)''),
      (Num 3, Str ''Work at home only (only telework or self-employed)''),
      (Num 4, Str ''Drive/Travel for a living (e.g., bus/truck driver, salesman)''),
      (Null, Str ''Missing'')]"

definition persons_map_occupation :: "(cell \<times> cell) list" where
  "persons_map_occupation = [
      (Num 11, Str ''Management Occupations''),
      (Num 13, Str ''Business & Financial Operations''),
      (Num 15, Str ''Computer & Mathematical''),
      (Num 17, Str ''Architecture & Engineering''),
      (Num 19, Str ''Life, Physical, & Social Science''),
      (Num 21, Str ''Community & Social Services''),
      (Num 23, Str ''Legal''),
      (Num 25, Str ''Education, Training, & Library''),
      (Num 27, Str ''Arts, Design, Entertainment, Sports, & Media''),
      (Num 29, Str ''Healthcare Practitioners & Technical''),
      (Num 31, Str ''Healthcare Support''),
      (Num 33, Str ''Protective Service''),
      (Num 35, Str ''Food Preparation & Serving Related''),
      (Num 37, Str ''Building & Grounds Cleaning/Maintenance''),
      (Num 39, Str ''Personal Care & Service''),
      (Num 41, Str ''Sales & Related''),
      (Num 43, Str ''Office & Administrative Support''),
      (Num 45, Str ''Farming, Fishing, & Forestry''),
      (Num 47, Str ''Construction & Extraction''),
      (Num 49, Str ''Installation, Maintenance, & Repair''),
      (Num 51, Str ''Production''),
      (Num 53, Str ''Transportation & Material Moving''),
      (Num 55, Str ''Military''),
      (Num 97, Str ''Other''),
      (Num 98, Str ''Do not know''),
      (Null, Str ''Missing'')]"

definition persons_map_industry :: "(cell \<times> cell) list" where
  "persons_map_industry = [
      (Num 1, Str ''Accommodation (e.g., hotels/motels)''),
      (Num 2, Str ''Administrative, Support, & Waste Management Services''),
      (Num 3, Str ''Agriculture, Forestry, Fishing, & Hunting''),
      (Num 4, Str ''Arts, Entertainment, & Recreation''),
      (Num 5, Str ''Construction''),
      (Num 6, Str ''Education Services''),
      (Num 7, Str ''Food Services & Drinking Places''),
      (Num 8, Str ''Finance & Insurance''),
      (Num 9, Str ''Health Care & Social Assistance''),
      (Num 10, Str ''Information''),
      (Num 11, Str ''Management of Companies & Enterprises''),
      (Num 12, Str ''Manufacturing''),
      (Num 13, Str ''Military''),
      (Num 14, Str ''Mining, Quarrying, & Oil/Gas Extraction''),
      (Num 15, Str ''Other Services''),
      (Num 16, Str ''Professional, Scientific, & Technical Services''),
      (Num 17, Str ''Public Administration''),
      (Num 18, Str ''Real Estate, Rental, & Leasing''),
      (Num 19, Str ''Retail Trade''),
      (Num 20, Str ''Transportation & Warehousing''),
      (Num 21, Str ''Utilities''),
      (Num 22, Str ''Wholesale Trade''),
      (Num 97, Str ''Other''),
      (Num 98, Str ''Do not know''),
      (Null, Str ''Missing'')]"

definition persons_map_hours_work :: "(cell \<times> cell) list" where
  "persons_map_hours_work = [
      (Num 1, Str ''50 or more hours''),
      (Num 2, Str ''40-49 hours''),
      (Num 3, Str ''35-39 hours''),
      (Num 4, Str ''30-34 hours''),
      (Num 5, Str ''20-29 hours''),
      (Num 6, Str ''10-19 hours''),
      (Num 7, Str ''Fewer than 10 hours''),
      (Num 8, Str ''Hours vary greatly from week to week''),
      (Null, Str ''Missing'')]"

definition persons_map_commute_freq :: "(cell \<times> cell) list" where
  "persons_map_commute_freq = [
      (Num 1, Str ''6-7 days a week''),
      (Num 2, Str ''5 days a week''),
      (Num 3, Str ''4 days a week''),
      (Num 4, Str ''2-3 days a week''),
      (Num 5, Str ''1 day a week''),
      (Num 6, Str ''9 days every 2 weeks''),
      (Num 7, Str ''1-3 days per month''),
      (Num 8, Str ''Less than monthly''),
      (Num 9, Str ''Never''),
      (Null, Str ''Missing'')]"

definition persons_map_commute_mode :: "(cell \<times> cell) list" where
  "persons_map_commute_mode = [
      (Num 1, Str ''Drive alone''),
      (Num 2, Str ''Carpool with only family/household member(s)''),
      (Num 3, Str ''Carpool with at least one person not in household''),
      (Num 4, Str ''Motorcycle/moped/scooter''),
      (Num 5, Str ''Walk/jog/wheelchair''),
      (Num 6, Str ''Bicycle''),
      (Num 7, Str ''School bus''),
      (Num 8, Str ''Bus (public transit)''),
      (Num 9, Str ''Private shuttle bus''),
      (Num 10, Str ''Vanpool''),
      (Num 11, Str ''Light Rail (e.g., Trolley, SPRINTER)''),
      (Num 12, Str ''Intercity Rail (e.g., COASTER, Amtrak)''),
      (Num 13, Str ''Paratransit''),
      (Num 14, Str ''Taxi or other hired car service (e.g., Lyft, Uber)''),
      (Num 97, Str ''Other''),
      (Null, Str ''Missing'')]"

definition persons_map_work_flex :: "(cell \<times> cell) list" where
  "persons_map_work_flex = [
      (Num 1, Str ''No flexibility (must always arrive on time)''),
      (Num 2, Str ''Can arrive up to 15 minutes earlier/later''),
      (Num 3, Str ''Can arrive up to 30 minutes earlier/later''),
      (Num 4, Str ''Can arrive up to 45 minutes earlier/later''),
      (Num 5, Str ''Can arrive more than an hour earlier/later''),
      (Num 6, Str ''Sets own schedule (start time can vary greatly)''),
      (Null, Str ''Missing'')]"

definition persons_map_work_park_pay :: "(cell \<times> cell) list" where
  "persons_map_work_park_pay = [
      (Num 1, Str ''No cost to anyone to park at/near work''),
      (Num 2, Str ''Employer pays all parking costs''),
      (Num 3, Str ''Employer offers discounted monthly parking pass''),
      (Num 4, Str ''Employer offers discounted other (e.g., daily, weekly) parking pass''),
      (Num 5, Str ''Personally pay all cost for monthly parking pass''),
      (Num 6, Str ''Personally pay all cost for daily parking''),
      (Num 7, Str ''Personally pay for parking on other (daily, biweekly, annual) schedule''),
      (Num 96, Str ''Not Applicable''),
      (Num 98, Str ''Do not know''),
      (Null, Str ''Missing'')]"

definition persons_map_work_park_cost_dk :: "(cell \<times> cell) list" where
  "persons_map_work_park_cost_dk = [
      (Num 0, Str ''No''),
      (Num 1, Str ''Yes''),
      (Null, Str ''Not Applicable'')]"

definition persons_map_work_park_ease :: "(cell \<times> cell) list" where
  "persons_map_work_park_ease = [
      (Num 1, Str ''Easy to find a parking spot''),
      (Num 2, Str ''Difficult to find a parking spot (usually takes a few minutes)''),
      (Num 96, Str ''Not Applicable''),
      (Null, Str ''Missing'')]"

definition persons_map_telecommute_freq :: "(cell \<times> cell) list" where
  "persons_map_telecommute_freq = [
      (Num 1, Str ''6-7 days a week''),
      (Num 2, Str ''5 days a week''),
      (Num 3, Str ''4 days a week''),
      (Num 4, Str ''2-3 days a week''),
      (Num 5, Str ''1 day a week''),
      (Num 6, Str ''9 days every 2 weeks''),
      (Num 7, Str ''1-3 days per month''),
      (Num 8, Str ''Less than monthly''),
      (Num 9, Str ''Never''),
      (Null, Str ''Missing'')]"

definition persons_map_commute_subsidy_none :: "(cell \<times> cell) list" where
  "persons_map_commute_subsidy_none = [
      (Num 0, Str ''No''),
      (Num 1, Str ''Yes''),
      (Null, Str ''Missing'')]"

definition persons_map_commute_subsidy_parking :: "(cell \<times> cell) list" where
  "persons_map_commute_subsidy_parking = [
      (Num 0, Str ''No''),
      (Num 1, Str ''Yes''),
      (Null, Str ''Missing'')]"

definition persons_map_commute_subsidy_transit :: "(cell \<times> cell) list" where
  "persons_map_commute_subsidy_transit = [
      (Num 0, Str ''No''),
      (Num 1, Str ''Yes''),
      (Null, Str ''Missing'')]"

definition persons_map_commute_subsidy_vanpool :: "(cell \<times> cell) list" where
  "persons_map_commute_subsidy_vanpool = [
      (Num 0, Str ''No''),
      (Num 1, Str ''Yes''),
      (Null, Str ''Missing'')]"

definition persons_map_commute_subsidy_cash :: "(cell \<times> cell) list" where
  "persons_map_commute_subsidy_cash = [
      (Num 0, Str ''No''),
      (Num 1, Str ''Yes''),
      (Null, Str ''Missing'')]"

definition persons_map_commute_subsidy_other :: "(cell \<times> cell) list" where
  "persons_map_commute_subsidy_other = [
      (Num 0, Str ''No''),
      (Num 1, Str ''Yes''),
      (Null, Str ''Missing'')]"

definition persons_map_secondhome :: "(cell \<times> cell) list" where
  "persons_map_secondhome = [
      (Num 0, Str ''No''),
      (Num 1, Str ''Yes''),
      (Null, Str ''Missing'')]"

definition persons_map_smartphone_type :: "(cell \<times> cell) list" where
  "persons_map_smartphone_type = [
      (Num 1, Str ''Yes, has an Android phone''),
      (Num 2, Str ''Yes, has an iPhone''),
      (Num 3, Str ''Yes, has a Windows Phone''),
      (Num 4, Str ''Yes, has a Blackberry''),
      (Num 5, Str ''Yes, has other type of smartphone''),
      (Num 6, Str ''No, does not have a smartphone''),
      (Num 99, Str ''Not Applicable''),
      (Null, Str ''Missing'')]"

definition persons_map_smartphone_age :: "(cell \<times> cell) list" where
  "persons_map_smartphone_age = [
      (Num 1, Str ''Yes''),
      (Num 2, Str ''No''),
      (Num 99, Str ''Not Applicable''),
      (Null, Str ''Missing'')]"

definition persons_map_child_smartphone :: "(cell \<times> cell) list" where
  "persons_map_child_smartphone = [
      (Num 1, Str ''Yes''),
      (Num 2, Str ''No''),
      (Num 99, Str ''Not Applicable''),
      (Null, Str ''Missing'')]"

definition persons_map_callcenter_diary :: "(cell \<times> cell) list" where
  "persons_map_callcenter_diary = [
      (Num 0, Str ''No''),
      (Num 1, Str ''Yes''),
      (Num 99, Str ''Not Applicable''),
      (Null, Str ''Missing'')]"

definition persons_map_mobile_diary :: "(cell \<times> cell) list" where
  "persons_map_mobile_diary = [
      (Num 0, Str ''No''),
      (Num 1, Str ''Yes''),
      (Num 99, Str ''Not Applicable''),
      (Null, Str ''Missing'')]"

definition persons_map_day1_complete :: "(cell \<times> cell) list" where
  "persons_map_day1_complete = [
      (Num 0, Str ''No''),
      (Num 1, Str ''Yes''),
      (Null, Str ''Not Applicable'')]"

definition persons_map_day2_complete :: "(cell \<times> cell) list" where
  "persons_map_day2_complete = [
      (Num 0, Str ''No''),
      (Num 1, Str ''Yes''),
      (Null, Str ''Not Applicable'')]"

definition persons_map_day3_complete :: "(cell \<times> cell) list" where
  "persons_map_day3_complete = [
      (Num 0, Str ''No''),
      (Num 1, Str ''Yes''),
      (Null, Str ''Not Applicable'')]"

definition persons_map_day4_complete :: "(cell \<times> cell) list" where
  "persons_map_day4_complete = [
      (Num 0, Str ''No''),
      (Num 1, Str ''Yes''),
      (Null, Str ''Not Applicable'')]"

definition persons_map_day5_complete :: "(cell \<times> cell) list" where
  "persons_map_day5_complete = [
      (Num 0, Str ''No''),
      (Num 1, Str ''Yes''),
      (Null, Str ''Not Applicable'')]"

definition persons_map_day6_complete :: "(cell \<times> cell) list" where
  "persons_map_day6_complete = [
      (Num 0, Str ''No''),
      (Num 1, Str ''Yes''),
      (Null, Str ''Not Applicable'')]"

definition persons_map_day7_complete :: "(cell \<times> cell) list" where
  "persons_map_day7_complete = [
      (Num 0, Str ''No''),
      (Num 1, Str ''Yes''),
      (Null, Str ''Not Applicable'')]"

definition persons_mappings :: "(string \<times> (cell \<times> cell) list) list" where
  "persons_mappings = [
      (''rmove_participant'', persons_map_rmove_participant),
      (''relationship'', persons_map_relationship),
      (''gender'', persons_map_gender),
      (''age'', persons_map_age),
      (''employment'', persons_map_employment),
      (''jobs_count'', persons_map_jobs_count),
      (''student'', persons_map_student),
      (''education'', persons_map_education),
      (''license'', persons_map_license),
      (''military'', persons_map_military),
      (''ethnicity_amindian_alaska'', persons_map_ethnicity_amindian_alaska),
      (''ethnicity_asian'', persons_map_ethnicity_asian),
      (''ethnicity_black'', persons_map_ethnicity_black),
      (''ethnicity_hispanic'', persons_map_ethnicity_hispanic),
      (''ethnicity_hawaiian_pacific'', persons_map_ethnicity_hawaiian_pacific),
      (''ethnicity_white'', persons_map_ethnicity_white),
      (''ethnicity_other'', persons_map_ethnicity_other),
      (''ethnicity_prefernot'', persons_map_ethnicity_prefernot),
      (''disability'', persons_map_disability),
      (''physical_activity'', persons_map_physical_activity),
      (''transit_freq'', persons_map_transit_freq),
      (''transitpass'', persons_map_transitpass),
      (''schooltype'', persons_map_schooltype),
      (''school_freq'', persons_map_school_freq),
      (''other_school'', persons_map_other_school),
      (''school_mode'', persons_map_school_mode),
      (''daycare_early'', persons_map_daycare_early),
      (''daycare_late'', persons_map_daycare_late),
      (''job_type'', persons_map_job_type),
      (''occupation'', persons_map_occupation),
      (''industry'', persons_map_industry),
      (''hours_work'', persons_map_hours_work),
      (''commute_freq'', persons_map_commute_freq),
      (''commute_mode'', persons_map_commute_mode),
      (''work_flex'', persons_map_work_flex),
      (''work_park_pay'', persons_map_work_park_pay),
      (''work_park_cost_dk'', persons_map_work_park_cost_dk),
      (''work_park_ease'', persons_map_work_park_ease),
      (''telecommute_freq'', persons_map_telecommute_freq),
      (''commute_subsidy_none'', persons_map_commute_subsidy_none),
      (''commute_subsidy_parking'', persons_map_commute_subsidy_parking),
      (''commute_subsidy_transit'', persons_map_commute_subsidy_transit),
      (''commute_subsidy_vanpool'', persons_map_commute_subsidy_vanpool),
      (''commute_subsidy_cash'', persons_map_commute_subsidy_cash),
      (''commute_subsidy_other'', persons_map_commute_subsidy_other),
      (''secondhome'', persons_map_secondhome),
      (''smartphone_type'', persons_map_smartphone_type),
      (''smartphone_age'', persons_map_smartphone_age),
      (''child_smartphone'', persons_map_child_smartphone),
      (''callcenter_diary'', persons_map_callcenter_diary),
      (''mobile_diary'', persons_map_mobile_diary),
      (''day1_complete'', persons_map_day1_complete),
      (''day2_complete'', persons_map_day2_complete),
      (''day3_complete'', persons_map_day3_complete),
      (''day4_complete'', persons_map_day4_complete),
      (''day5_complete'', persons_map_day5_complete),
      (''day6_complete'', persons_map_day6_complete),
      (''day7_complete'', persons_map_day7_complete)]"


text \<open>
  The statements after the recoding (the "manual recodes"), in source order. The loop
  over the code tables has added the category "Not Applicable" to every recoded
  column, so each assignment below is to a column that has the label or holds text.
\<close>

definition persons_steps :: "(cell \<times> cell) geolib \<Rightarrow> (row \<Rightarrow> row) list" where
  "persons_steps G = [
      loc (\<lambda>r. isin (r ''age'') [Str ''Under 5 years old'', Str ''5-15 years''])
        [
          ''employment'', ''jobs_count'', ''license'', ''military'',
          ''ethnicity_amindian_alaska'', ''ethnicity_asian'', ''ethnicity_black'',
          ''ethnicity_hispanic'', ''ethnicity_hawaiian_pacific'', ''ethnicity_white'',
          ''ethnicity_other'', ''ethnicity_prefernot'', ''disability'', ''transit_freq'',
          ''transitpass'', ''job_type'', ''occupation'', ''industry'', ''hours_work'',
          ''commute_freq'', ''commute_mode'', ''work_flex'', ''work_park_pay'',
          ''work_park_cost_dk'', ''work_park_ease'', ''telecommute_freq'',
          ''commute_subsidy_none'', ''commute_subsidy_parking'', ''commute_subsidy_transit'',
          ''commute_subsidy_vanpool'', ''commute_subsidy_cash'', ''commute_subsidy_other'',
          ''commute_subsidy_specify'', ''work_address'', ''secondwork_address'',
          ''smartphone_type'', ''smartphone_age''] (Str ''Not Applicable''),
      loc (\<lambda>r. r ''age'' \<noteq> Str ''16-17 years'')
        [''child_smartphone''] (Str ''Not Applicable''),
      loc (\<lambda>r. isin (r ''age'') [
               Str ''Under 5 years old'',
               Str ''5-15 years'',
               Str ''16-17 years''])
        [''student'', ''education'', ''physical_activity''] (Str ''Not Applicable''),
      loc (\<lambda>r. r ''employment'' = Str ''Not currently employed'')
        [
          ''jobs_count'', ''military'', ''job_type'', ''occupation'', ''industry'',
          ''hours_work'', ''commute_freq'', ''commute_mode'', ''work_flex'', ''work_park_pay'',
          ''work_park_cost_dk'', ''work_park_ease'', ''telecommute_freq'',
          ''commute_subsidy_none'', ''commute_subsidy_parking'', ''commute_subsidy_transit'',
          ''commute_subsidy_vanpool'', ''commute_subsidy_cash'', ''commute_subsidy_other'',
          ''commute_subsidy_specify'', ''work_address'', ''secondwork_address''] (Str ''Not Applicable''),
      fillna [''secondwork_address''] (Str ''Not Applicable''),
      loc (\<lambda>r. r ''ethnicity_prefernot'' = Str ''Yes'')
        [
          ''ethnicity_amindian_alaska'', ''ethnicity_asian'', ''ethnicity_black'',
          ''ethnicity_hispanic'', ''ethnicity_hawaiian_pacific'', ''ethnicity_white'',
          ''ethnicity_other''] (Str ''Not Applicable''),
      loc (\<lambda>r. isin (r ''transit_freq'') [
               Str ''1-3 days per month'',
               Str ''Less than monthly'',
               Str ''Never''])
        [''transitpass''] (Str ''Not Applicable''),
      loc (\<lambda>r. isin (r ''schooltype'') [Str ''Missing'', Str ''Not Applicable''])
        [''mainschool_address'', ''secondschool_address''] (Str ''Not Applicable''),
      fillna [''secondschool_address''] (Str ''Not Applicable''),
      loc (\<lambda>r. isin (r ''schooltype'') [
               Str ''Cared for at home'',
               Str ''Kindergarten-Grade 5 (home school)'',
               Str ''Grade 6-Grade 8 (home school)'',
               Str ''Grade 9-Grade 12 (home school)'',
               Str ''Missing'',
               Str ''Not Applicable''])
        [''school_freq'', ''other_school'', ''school_mode''] (Str ''Not Applicable''),
      loc (\<lambda>r. r ''school_freq'' = Str ''Never, only takes online classes'')
        [''school_mode''] (Str ''Not Applicable''),
      loc (\<lambda>r. r ''schooltype'' \<noteq> Str ''Daycare outside home'')
        [''daycare_early'', ''daycare_late''] (Str ''Not Applicable''),
      loc (\<lambda>r. isin (r ''military'') [
               Str ''Active duty within the San Diego region'',
               Str ''Active duty outside of the San Diego region''])
        [
          ''job_type'', ''occupation'', ''industry'', ''hours_work'', ''commute_freq'',
          ''commute_mode'', ''work_flex'', ''work_park_pay'', ''work_park_cost_dk'',
          ''work_park_ease'', ''telecommute_freq'', ''commute_subsidy_none'',
          ''commute_subsidy_parking'', ''commute_subsidy_transit'', ''commute_subsidy_vanpool'',
          ''commute_subsidy_cash'', ''commute_subsidy_other'', ''commute_subsidy_specify''] (Str ''Not Applicable''),
      loc (\<lambda>r. r ''job_type'' = Str ''Work at home only (only telework or self-employed)'')
        [''telecommute_freq''] (Str ''Not Applicable''),
      loc (\<lambda>r. isin (r ''job_type'') [
               Str ''Work at home only (only telework or self-employed)'',
               Str ''Drive/Travel for a living (e.g., bus/truck driver, salesman)''])
        [''commute_freq''] (Str ''Not Applicable''),
      loc (\<lambda>r. isin (r ''commute_freq'') [Str ''Never'', Str ''Not Applicable''])
        [
          ''commute_mode'', ''work_flex'', ''work_park_pay'', ''work_park_cost_dk'',
          ''work_park_ease'', ''commute_subsidy_none'', ''commute_subsidy_parking'',
          ''commute_subsidy_transit'', ''commute_subsidy_vanpool'', ''commute_subsidy_cash'',
          ''commute_subsidy_other'', ''commute_subsidy_specify''] (Str ''Not Applicable''),
      loc (\<lambda>r. isin (r ''commute_subsidy_other'') [Str ''No'', Str ''Not Applicable''])
        [''commute_subsidy_specify''] (Str ''Not Applicable''),
      loc (\<lambda>r. \<not> isin (r ''commute_mode'') [
               Str ''Drive alone'',
               Str ''Carpool with only family/household member(s)'',
               Str ''Carpool with at least one person not in household'',
               Str ''Motorcycle/moped/scooter''])
        [''work_park_pay'', ''work_park_cost_dk'', ''work_park_ease''] (Str ''Not Applicable''),
      loc (\<lambda>r. r ''secondhome'' \<noteq> Str ''Yes'')
        [''secondhome_address''] (Str ''Not Applicable''),
      loc (\<lambda>r. r ''rmove_participant'' = Str ''Yes'')
        [''callcenter_diary'', ''mobile_diary''] (Str ''Not Applicable''),
      loc (\<lambda>r. isin (r ''smartphone_type'') [
               Str ''Yes, has a Windows Phone'',
               Str ''Yes, has other type of smartphone'',
               Str ''Yes, has a Blackberry'',
               Str ''No, does not have a smartphone'',
               Str ''Not Applicable''])
        [''smartphone_age''] (Str ''Not Applicable''),
      fillna [''mainschool_address''] (Str ''Missing''),
      fillna [''work_address''] (Str ''Missing''),
      set_point_wkt G ''EPSG:2230'' ''second_home_shape'' ''secondhome_lng'' ''secondhome_lat'',
      set_point_wkt G ''EPSG:2230'' ''school_shape'' ''mainschool_lng'' ''mainschool_lat'',
      set_point_wkt G ''EPSG:2230'' ''second_school_shape'' ''secondschool_lng'' ''secondschool_lat'',
      set_point_wkt G ''EPSG:2230'' ''work_shape'' ''work_lng'' ''work_lat'',
      set_point_wkt G ''EPSG:2230'' ''second_work_shape'' ''secondwork_lng'' ''secondwork_lat'']"

definition persons_rename :: "(string \<times> string) list" where
  "persons_rename = [
      (''personid'', ''person_id''), (''hhid'', ''household_id''),
      (''pernum'', ''person_number''), (''traveldate_start'', ''travel_date_start''),
      (''age'', ''age_category''), (''employment'', ''employment_status''),
      (''jobs_count'', ''number_of_jobs''), (''student'', ''adult_student_status''),
      (''education'', ''educational_attainment''), (''license'', ''drivers_license''),
      (''military'', ''military_status''),
      (''ethnicity_amindian_alaska'', ''ethnicity_americanindian_alaskanative''),
      (''weight_lbs'', ''weight''), (''transit_freq'', ''transit_frequency''),
      (''transitpass'', ''transit_pass''), (''schooltype'', ''school_type''),
      (''school_freq'', ''school_frequency''), (''daycare_early'', ''daycare_open''),
      (''daycare_late'', ''daycare_close''), (''job_type'', ''work_location_type''),
      (''hours_work'', ''hours_worked''), (''commute_freq'', ''commute_frequency''),
      (''work_flex'', ''work_arrival_frequency''), (''work_park_pay'', ''work_parking_payment''),
      (''work_park_cost'', ''work_parking_cost''),
      (''work_park_cost_dk'', ''work_parking_cost_dk''),
      (''work_park_ease'', ''work_parking_ease''),
      (''telecommute_freq'', ''telecommute_frequency''), (''secondhome'', ''has_second_home''),
      (''secondhome_address'', ''second_home_address''),
      (''secondhome_lat'', ''second_home_latitude''),
      (''secondhome_lng'', ''second_home_longitude''),
      (''mainschool_address'', ''school_address''), (''mainschool_lat'', ''school_latitude''),
      (''mainschool_lng'', ''school_longitude''),
      (''secondschool_address'', ''second_school_address''),
      (''secondschool_lat'', ''second_school_latitude''),
      (''secondschool_lng'', ''second_school_longitude''), (''work_lat'', ''work_latitude''),
      (''work_lng'', ''work_longitude''), (''secondwork_address'', ''second_work_address''),
      (''secondwork_lat'', ''second_work_latitude''),
      (''secondwork_lng'', ''second_work_longitude''),
      (''child_smartphone'', ''smartphone_child''), (''callcenter_diary'', ''diary_callcenter''),
      (''mobile_diary'', ''diary_mobile''), (''activated_rmove'', ''rmove_activated''),
      (''numdays_complete'', ''completed_days''), (''day1_complete'', ''completed_day1''),
      (''day2_complete'', ''completed_day2''), (''day3_complete'', ''completed_day3''),
      (''day4_complete'', ''completed_day4''), (''day5_complete'', ''completed_day5''),
      (''day6_complete'', ''completed_day6''), (''day7_complete'', ''completed_day7'')]"

definition persons_columns :: "string list" where
  "persons_columns = [
      ''person_id'', ''household_id'', ''person_number'', ''travel_date_start'',
      ''rmove_participant'', ''relationship'', ''gender'', ''age_category'',
      ''employment_status'', ''number_of_jobs'', ''adult_student_status'',
      ''educational_attainment'', ''drivers_license'', ''military_status'',
      ''ethnicity_americanindian_alaskanative'', ''ethnicity_asian'', ''ethnicity_black'',
      ''ethnicity_hispanic'', ''ethnicity_hawaiian_pacific'', ''ethnicity_white'',
      ''ethnicity_other'', ''disability'', ''height'', ''weight'', ''physical_activity'',
      ''transit_frequency'', ''transit_pass'', ''school_type'', ''school_frequency'',
      ''other_school'', ''school_mode'', ''daycare_open'', ''daycare_close'',
      ''work_location_type'', ''occupation'', ''industry'', ''hours_worked'',
      ''commute_frequency'', ''commute_mode'', ''work_arrival_frequency'',
      ''work_parking_payment'', ''work_parking_cost'', ''work_parking_cost_dk'',
      ''work_parking_ease'', ''telecommute_frequency'', ''commute_subsidy_none'',
      ''commute_subsidy_parking'', ''commute_subsidy_transit'', ''commute_subsidy_vanpool'',
      ''commute_subsidy_cash'', ''commute_subsidy_other'', ''commute_subsidy_specify'',
      ''has_second_home'', ''second_home_address'', ''second_home_latitude'',
      ''second_home_longitude'', ''second_home_shape'', ''school_address'', ''school_latitude'',
      ''school_longitude'', ''school_shape'', ''second_school_address'',
      ''second_school_latitude'', ''second_school_longitude'', ''second_school_shape'',
      ''work_address'', ''work_latitude'', ''work_longitude'', ''work_shape'',
      ''second_work_address'', ''second_work_latitude'', ''second_work_longitude'',
      ''second_work_shape'', ''smartphone_type'', ''smartphone_age'', ''smartphone_child'',
      ''diary_callcenter'', ''diary_mobile'', ''rmove_activated'', ''completed_days'',
      ''completed_day1'', ''completed_day2'', ''completed_day3'', ''completed_day4'',
      ''completed_day5'', ''completed_day6'', ''completed_day7'']"


text \<open>
  The method: read both files, complete the AT rows, concatenate (SDRTS first), recode,
  run the statements, rename and return the listed columns.
\<close>

definition persons_concat :: "frame \<Rightarrow> frame \<Rightarrow> frame" where
  "persons_concat sdrts at_df =
     map (usecols persons_sdrts_usecols) sdrts
     @ map (\<lambda>r. persons_at_defaults (usecols persons_at_usecols r)) at_df"

definition persons_row :: "(cell \<times> cell) geolib \<Rightarrow> row \<Rightarrow> row" where
  "persons_row G r = run (persons_steps G) (recode persons_mappings r)"

definition persons :: "(cell \<times> cell) geolib \<Rightarrow> frame \<Rightarrow> frame \<Rightarrow> out_row list" where
  "persons G sdrts at_df =
     map (\<lambda>r. select persons_columns (rename persons_rename r))
       (map (persons_row G) (persons_concat sdrts at_df))"

section \<open>The trip table: \<open>SurveyData.trips\<close>\<close>

text \<open>
  The columns read from the two files, the constants the method gives the columns the
  AT file lacks (its \<open>location_tripid\<close> is its \<open>tripid_linked\<close>), the code tables
  and the lists of mode labels.
\<close>

definition trips_at_usecols :: "string list" where
  "trips_at_usecols = [
      ''tripid'', ''tripid_linked'', ''personid'', ''hhid'', ''traveldate'', ''daynum'',
      ''travel_dow'', ''svy_complete'', ''completed_at'', ''revised_at'', ''revised_count'',
      ''error'', ''flag_teleport'', ''copied_trip'', ''analyst_merged'', ''analyst_split'',
      ''user_merged'', ''user_split'', ''added_trip'', ''unlinked_transit_trip'', ''origin_lat'',
      ''origin_lng'', ''destination_lat'', ''destination_lng'', ''o_purpose'',
      ''o_purpose_other'', ''o_purpose_inferred'', ''d_purpose'', ''d_purpose_other'',
      ''d_purpose_inferred'', ''departure_time'', ''arrival_time'', ''travelers_total'',
      ''travelers_hh'', ''travelers_nonhh'', ''mode1'', ''google_mode'', ''driver'',
      ''parklocation'', ''parktype'', ''parkcost'', ''park_cost_dk'', ''parkegress_time'',
      ''taxitype'', ''taxicost'', ''taxi_cost_dk'', ''airtype'', ''airfarecost'',
      ''airfare_cost_dk'', ''bustype'', ''buscost'', ''bus_cost_dk'', ''railtype'', ''railcost'',
      ''rail_cost_dk'', ''ferrytype'', ''ferrycost'', ''ferry_cost_dk'', ''trip_path_distance'',
      ''trip_duration'', ''speed_mph'']"

definition trips_sdrts_usecols :: "string list" where
  "trips_sdrts_usecols = [
      ''tripid'', ''tripid_linked'', ''location_tripid'', ''personid'', ''hhid'', ''traveldate'',
      ''daynum'', ''travel_dow'', ''data_source'', ''svy_complete'', ''completed_at'',
      ''day_hhcomplete'', ''pday_complete'', ''h_complete_weekdays'', ''revised_at'',
      ''revised_count'', ''error'', ''flag_teleport'', ''copied_trip'', ''analyst_merged'',
      ''analyst_split'', ''user_merged'', ''user_split'', ''added_trip'',
      ''nonproxy_derived_trip'', ''proxy_added_trip'', ''unlinked_transit_trip'', ''origin_name'',
      ''origin_address'', ''origin_lat'', ''origin_lng'', ''destination_name'',
      ''destination_address'', ''destination_lat'', ''destination_lng'', ''o_purpose'',
      ''o_purpose_other'', ''o_purpose_inferred'', ''d_purpose'', ''d_purpose_other'',
      ''d_purpose_inferred'', ''departure_time'', ''arrival_time'', ''travelers_total'',
      ''travelers_hh'', ''travelers_nonhh'', ''mode1'', ''mode2'', ''mode3'', ''mode4'',
      ''transit_access'', ''transit_egress'', ''google_mode'', ''driver'', ''toll_no'',
      ''toll_express'', ''parklocation'', ''parktype'', ''parkcost'', ''park_cost_dk'',
      ''parkegress_time'', ''taxitype'', ''taxicost'', ''taxi_cost_dk'', ''airtype'',
      ''airfarecost'', ''airfare_cost_dk'', ''bustype'', ''buscost'', ''bus_cost_dk'',
      ''railtype'', ''railcost'', ''rail_cost_dk'', ''ferrytype'', ''ferrycost'',
      ''ferry_cost_dk'', ''parkride_lot'', ''parkride_city'', ''trip_path_distance'',
      ''trip_duration'', ''trip_duration_reported'', ''speed_mph'', ''h_multiday_factor'',
      ''multiday_weight_456x'']"

definition trips_at_defaults :: "row \<Rightarrow> row" where
  "trips_at_defaults r = r(
        ''location_tripid'' := r ''tripid_linked'',
        ''data_source'' := Num 1,
        ''day_hhcomplete'' := Num 99,
        ''pday_complete'' := Num 99,
        ''nonproxy_derived_trip'' := Num 99,
        ''proxy_added_trip'' := Num 99,
        ''origin_name'' := Str ''Not Applicable'',
        ''origin_address'' := Str ''Not Applicable'',
        ''destination_name'' := Str ''Not Applicable'',
        ''destination_address'' := Str ''Not Applicable'',
        ''transit_access'' := Num 99,
        ''transit_egress'' := Num 99,
        ''toll_no'' := Num 99,
        ''toll_express'' := Num 99)"

definition trips_map_travel_dow :: "(cell \<times> cell) list" where
  "trips_map_travel_dow = [
      (Num 1, Str ''Monday''),
      (Num 2, Str ''Tuesday''),
      (Num 3, Str ''Wednesday''),
      (Num 4, Str ''Thursday''),
      (Num 5, Str ''Friday''),
      (Num 6, Str ''Saturday''),
      (Num 7, Str ''Sunday''),
      (Null, Str ''Missing'')]"

definition trips_map_data_source :: "(cell \<times> cell) list" where
  "trips_map_data_source = [
      (Num 1, Str ''rMove''),
      (Num 2, Str ''Online''),
      (Null, Str ''Missing'')]"

definition trips_map_svy_complete :: "(cell \<times> cell) list" where
  "trips_map_svy_complete = [
      (Num 0, Str ''No''),
      (Num 1, Str ''Yes''),
      (Null, Str ''Missing'')]"

definition trips_map_day_hhcomplete :: "(cell \<times> cell) list" where
  "trips_map_day_hhcomplete = [
      (Num 0, Str ''No''),
      (Num 1, Str ''Yes''),
      (Num 99, Str ''Not Applicable''),
      (Null, Str ''Missing'')]"

definition trips_map_pday_complete :: "(cell \<times> cell) list" where
  "trips_map_pday_complete = [
      (Num 0, Str ''No''),
      (Num 1, Str ''Yes''),
      (Num 99, Str ''Not Applicable''),
      (Null, Str ''Missing'')]"

definition trips_map_error :: "(cell \<times> cell) list" where
  "trips_map_error = [
      (Num 1, Str ''No error''),
      (Num 2, Str ''Not moving''),
      (Num 3, Str ''Still traveling''),
      (Num 4, Str ''Made other stops''),
      (Num 97, Str ''Other error''),
      (Null, Str ''Missing'')]"

definition trips_map_flag_teleport :: "(cell \<times> cell) list" where
  "trips_map_flag_teleport = [
      (Num 0, Str ''No''),
      (Num 1, Str ''Yes''),
      (Null, Str ''Missing'')]"

definition trips_map_copied_trip :: "(cell \<times> cell) list" where
  "trips_map_copied_trip = [
      (Num 0, Str ''No''),
      (Num 1, Str ''Yes''),
      (Null, Str ''Missing'')]"

definition trips_map_analyst_merged :: "(cell \<times> cell) list" where
  "trips_map_analyst_merged = [
      (Num 0, Str ''No''),
      (Num 1, Str ''Yes''),
      (Null, Str ''Missing'')]"

definition trips_map_analyst_split :: "(cell \<times> cell) list" where
  "trips_map_analyst_split = [
      (Num 0, Str ''No''),
      (Num 1, Str ''Yes''),
      (Null, Str ''Missing'')]"

definition trips_map_user_merged :: "(cell \<times> cell) list" where
  "trips_map_user_merged = [
      (Num 0, Str ''No''),
      (Num 1, Str ''Yes''),
      (Null, Str ''Missing'')]"

definition trips_map_user_split :: "(cell \<times> cell) list" where
  "trips_map_user_split = [
      (Num 0, Str ''No''),
      (Num 1, Str ''Yes''),
      (Null, Str ''Missing'')]"

definition trips_map_added_trip :: "(cell \<times> cell) list" where
  "trips_map_added_trip = [
      (Num 0, Str ''No''),
      (Num 1, Str ''Yes''),
      (Null, Str ''Missing'')]"

definition trips_map_nonproxy_derived_trip :: "(cell \<times> cell) list" where
  "trips_map_nonproxy_derived_trip = [
      (Num 0, Str ''No''),
      (Num 1, Str ''Yes''),
      (Num 99, Str ''Not Applicable''),
      (Null, Str ''Missing'')]"

definition trips_map_proxy_added_trip :: "(cell \<times> cell) list" where
  "trips_map_proxy_added_trip = [
      (Num 0, Str ''No''),
      (Num 1, Str ''Yes''),
      (Num 99, Str ''Not Applicable''),
      (Null, Str ''Missing'')]"

definition trips_map_unlinked_transit_trip :: "(cell \<times> cell) list" where
  "trips_map_unlinked_transit_trip = [
      (Num 0, Str ''No''),
      (Num 1, Str ''Yes''),
      (Null, Str ''Missing'')]"

definition trips_map_o_purpose :: "(cell \<times> cell) list" where
  "trips_map_o_purpose = [
      (Num 1, Str ''Home''),
      (Num 3, Str ''School/Class''),
      (Num 5, Str ''Drop off, pick up, accompany person (Online diary only)''),
      (Num 7, Str ''Social/leisure/vacation activity (Online diary only)''),
      (Num 10, Str ''Primary workplace''),
      (Num 11, Str ''Work-related''),
      (Num 12, Str ''Traveling for work (e.g., going to airport)''),
      (Num 13, Str ''Volunteer work''),
      (Num 14, Str ''Other work''),
      (Num 21, Str ''K-12 School''),
      (Num 22, Str ''College/University''),
      (Num 24, Str ''Other education-related (e.g., field trip)''),
      (Num 25, Str ''Vocational education''),
      (Num 30, Str ''Grocery''),
      (Num 31, Str ''Gas''),
      (Num 32, Str ''Routine shopping''),
      (Num 33, Str ''Errands without appointment''),
      (Num 34, Str ''Medical''),
      (Num 36, Str ''Shopping for a major item''),
      (Num 37, Str ''Errands with appointment''),
      (Num 45, Str ''Pick someone up (rMove only)''),
      (Num 46, Str ''Drop someone off (rMove only)''),
      (Num 47, Str ''Accompany someone (rMove only)''),
      (Num 48, Str ''Multiple: pickup, dropoff, accompany (rMove only)''),
      (Num 50, Str ''Restaurant''),
      (Num 51, Str ''Exercise''),
      (Num 52, Str ''Social (rMove only)''),
      (Num 53, Str ''Leisure/entertainment (rMove only)''),
      (Num 54, Str ''Religious/civic (rMove only)''),
      (Num 55, Str ''Vacation/travel (rMove only)''),
      (Num 56, Str ''Family activity (rMove only)''),
      (Num 60, Str ''Change travel mode''),
      (Num 61, Str ''Other errand''),
      (Num 62, Str ''Other leisure (rMove only)''),
      (Num 97, Str ''Other purpose''),
      (Num 99, Str ''Other''),
      (Num (- 9999), Str ''Technical error''),
      (Num (- 9998), Str ''Participant non-response''),
      (Null, Str ''Missing'')]"

definition trips_map_o_purpose_inferred :: "(cell \<times> cell) list" where
  "trips_map_o_purpose_inferred = [
      (Num 1, Str ''Home''),
      (Num 3, Str ''School/Class''),
      (Num 5, Str ''Drop off, pick up, accompany person (Online diary only)''),
      (Num 7, Str ''Social/leisure/vacation activity (Online diary only)''),
      (Num 10, Str ''Primary workplace''),
      (Num 11, Str ''Work-related''),
      (Num 12, Str ''Traveling for work (e.g., going to airport)''),
      (Num 13, Str ''Volunteer work''),
      (Num 14, Str ''Other work''),
      (Num 21, Str ''K-12 School''),
      (Num 22, Str ''College/University''),
      (Num 24, Str ''Other education-related (e.g., field trip)''),
      (Num 25, Str ''Vocational education''),
      (Num 30, Str ''Grocery''),
      (Num 31, Str ''Gas''),
      (Num 32, Str ''Routine shopping''),
      (Num 33, Str ''Errands without appointment''),
      (Num 34, Str ''Medical''),
      (Num 36, Str ''Shopping for a major item''),
      (Num 37, Str ''Errands with appointment''),
      (Num 45, Str ''Pick someone up (rMove only)''),
      (Num 46, Str ''Drop someone off (rMove only)''),
      (Num 47, Str ''Accompany someone (rMove only)''),
      (Num 48, Str ''Multiple: pickup, dropoff, accompany (rMove only)''),
      (Num 50, Str ''Restaurant''),
      (Num 51, Str ''Exercise''),
      (Num 52, Str ''Social (rMove only)''),
      (Num 53, Str ''Leisure/entertainment (rMove only)''),
      (Num 54, Str ''Religious/civic (rMove only)''),
      (Num 55, Str ''Vacation/travel (rMove only)''),
      (Num 56, Str ''Family activity (rMove only)''),
      (Num 60, Str ''Change travel mode''),
      (Num 61, Str ''Other errand''),
      (Num 62, Str ''Other leisure (rMove only)''),
      (Num 97, Str ''Other purpose''),
      (Num 99, Str ''Other''),
      (Num (- 9999), Str ''Technical error''),
      (Num (- 9998), Str ''Participant non-response''),
      (Null, Str ''Missing'')]"

definition trips_map_d_purpose :: "(cell \<times> cell) list" where
  "trips_map_d_purpose = [
      (Num 1, Str ''Home''),
      (Num 3, Str ''School/Class''),
      (Num 5, Str ''Drop off, pick up, accompany person (Online diary only)''),
      (Num 7, Str ''Social/leisure/vacation activity (Online diary only)''),
      (Num 10, Str ''Primary workplace''),
      (Num 11, Str ''Work-related''),
      (Num 12, Str ''Traveling for work (e.g., going to airport)''),
      (Num 13, Str ''Volunteer work''),
      (Num 14, Str ''Other work''),
      (Num 21, Str ''K-12 School''),
      (Num 22, Str ''College/University''),
      (Num 24, Str ''Other education-related (e.g., field trip)''),
      (Num 25, Str ''Vocational education''),
      (Num 30, Str ''Grocery''),
      (Num 31, Str ''Gas''),
      (Num 32, Str ''Routine shopping''),
      (Num 33, Str ''Errands without appointment''),
      (Num 34, Str ''Medical''),
      (Num 36, Str ''Shopping for a major item''),
      (Num 37, Str ''Errands with appointment''),
      (Num 45, Str ''Pick someone up (rMove only)''),
      (Num 46, Str ''Drop someone off (rMove only)''),
      (Num 47, Str ''Accompany someone (rMove only)''),
      (Num 48, Str ''Multiple: pickup, dropoff, accompany (rMove only)''),
      (Num 50, Str ''Restaurant''),
      (Num 51, Str ''Exercise''),
      (Num 52, Str ''Social (rMove only)''),
      (Num 53, Str ''Leisure/entertainment (rMove only)''),
      (Num 54, Str ''Religious/civic (rMove only)''),
      (Num 55, Str ''Vacation/travel (rMove only)''),
      (Num 56, Str ''Family activity (rMove only)''),
      (Num 60, Str ''Change travel mode''),
      (Num 61, Str ''Other errand''),
      (Num 62, Str ''Other leisure (rMove only)''),
      (Num 97, Str ''Other purpose''),
      (Num 99, Str ''Other''),
      (Num (- 9999), Str ''Technical error''),
      (Num (- 9998), Str ''Participant non-response''),
      (Null, Str ''Missing'')]"

definition trips_map_d_purpose_inferred :: "(cell \<times> cell) list" where
  "trips_map_d_purpose_inferred = [
      (Num 1, Str ''Home''),
      (Num 3, Str ''School/Class''),
      (Num 5, Str ''Drop off, pick up, accompany person (Online diary only)''),
      (Num 7, Str ''Social/leisure/vacation activity (Online diary only)''),
      (Num 10, Str ''Primary workplace''),
      (Num 11, Str ''Work-related''),
      (Num 12, Str ''Traveling for work (e.g., going to airport)''),
      (Num 13, Str ''Volunteer work''),
      (Num 14, Str ''Other work''),
      (Num 21, Str ''K-12 School''),
      (Num 22, Str ''College/University''),
      (Num 24, Str ''Other education-related (e.g., field trip)''),
      (Num 25, Str ''Vocational education''),
      (Num 30, Str ''Grocery''),
      (Num 31, Str ''Gas''),
      (Num 32, Str ''Routine shopping''),
      (Num 33, Str ''Errands without appointment''),
      (Num 34, Str ''Medical''),
      (Num 36, Str ''Shopping for a major item''),
      (Num 37, Str ''Errands with appointment''),
      (Num 45, Str ''Pick someone up (rMove only)''),
      (Num 46, Str ''Drop someone off (rMove only)''),
      (Num 47, Str ''Accompany someone (rMove only)''),
      (Num 48, Str ''Multiple: pickup, dropoff, accompany (rMove only)''),
      (Num 50, Str ''Restaurant''),
      (Num 51, Str ''Exercise''),
      (Num 52, Str ''Social (rMove only)''),
      (Num 53, Str ''Leisure/entertainment (rMove only)''),
      (Num 54, Str ''Religious/civic (rMove only)''),
      (Num 55, Str ''Vacation/travel (rMove only)''),
      (Num 56, Str ''Family activity (rMove only)''),
      (Num 60, Str ''Change travel mode''),
      (Num 61, Str ''Other errand''),
      (Num 62, Str ''Other leisure (rMove only)''),
      (Num 97, Str ''Other purpose''),
      (Num 99, Str ''Other''),
      (Num (- 9999), Str ''Technical error''),
      (Num (- 9998), Str ''Participant non-response''),
      (Null, Str ''Missing'')]"

definition trips_map_travelers_total :: "(cell \<times> cell) list" where
  "trips_map_travelers_total = [
      (Num 1, Num 1),
      (Num 2, Num 2),
      (Num 3, Num 3),
      (Num 4, Num 4),
      (Num 5, Num 5),
      (Num 6, Num 6),
      (Num 7, Num 7),
      (Num 8, Num 8),
      (Num 9, Num 9),
      (Num 10, Num 10),
      (Num (- 9998), Str ''Participant Non-response''),
      (Num (- 9999), Str ''Technical error''),
      (Null, Str ''Missing'')]"

definition trips_map_travelers_hh :: "(cell \<times> cell) list" where
  "trips_map_travelers_hh = [
      (Num 1, Num 1),
      (Num 2, Num 2),
      (Num 3, Num 3),
      (Num 4, Num 4),
      (Num 5, Num 5),
      (Num 6, Num 6),
      (Num 7, Num 7),
      (Num 8, Num 8),
      (Num 9, Num 9),
      (Num 10, Num 10),
      (Num (- 9998), Str ''Participant Non-response''),
      (Num (- 9999), Str ''Technical error''),
      (Null, Str ''Missing'')]"

definition trips_map_travelers_nonhh :: "(cell \<times> cell) list" where
  "trips_map_travelers_nonhh = [
      (Num 0, Num 0),
      (Num 1, Num 1),
      (Num 2, Num 2),
      (Num 3, Num 3),
      (Num 4, Num 4),
      (Num 5, Str ''5+''),
      (Num (- 9998), Str ''Participant Non-response''),
      (Num (- 9999), Str ''Technical error''),
      (Null, Str ''Missing'')]"

definition trips_map_mode1 :: "(cell \<times> cell) list" where
  "trips_map_mode1 = [
      (Num 1, Str ''Walk/jog/wheelchair''),
      (Num 2, Str ''Personal bicycle''),
      (Num 3, Str ''Borrowed bicycle''),
      (Num 4, Str ''Rental bicycle''),
      (Num 6, Str ''Household vehicle 1''),
      (Num 7, Str ''Household vehicle 2''),
      (Num 8, Str ''Household vehicle 3''),
      (Num 9, Str ''Household vehicle 4''),
      (Num 10, Str ''Household vehicle 5''),
      (Num 11, Str ''Household vehicle 6''),
      (Num 12, Str ''Household vehicle 7''),
      (Num 16, Str ''Other household vehicle''),
      (Num 17, Str ''Rental car''),
      (Num 18, Str ''Carshare''),
      (Num 21, Str ''Vanpool''),
      (Num 22, Str ''Other auto''),
      (Num 23, Str ''Bus''),
      (Num 24, Str ''School bus''),
      (Num 25, Str ''Intercity bus''),
      (Num 26, Str ''Shuttle bus''),
      (Num 27, Str ''Paratransit''),
      (Num 28, Str ''Other bus''),
      (Num 30, Str ''Subway''),
      (Num 31, Str ''Airplane''),
      (Num 32, Str ''Ferry or water taxi''),
      (Num 33, Str ''Work car''),
      (Num 34, Str ''Friends car''),
      (Num 36, Str ''Taxi - Regular''),
      (Num 37, Str ''Taxi - Rideshare''),
      (Num 38, Str ''University bus or shuttle''),
      (Num 39, Str ''Rail - Light''),
      (Num 41, Str ''Rail - Intercity''),
      (Num 42, Str ''Rail - Other''),
      (Num 43, Str ''Skateboard''),
      (Num 44, Str ''Golf cart''),
      (Num 45, Str ''ATV''),
      (Num 47, Str ''Other household motorcycle''),
      (Num 55, Str ''Express bus/Rapid''),
      (Num 97, Str ''Other mode''),
      (Num 150, Str ''San Diego Coaster Line''),
      (Num (- 9999), Str ''Technical error''),
      (Num (- 9998), Str ''Participant non-response''),
      (Null, Str ''Not Applicable'')]"

definition trips_map_mode2 :: "(cell \<times> cell) list" where
  "trips_map_mode2 = [
      (Num 1, Str ''Walk/jog/wheelchair''),
      (Num 2, Str ''Personal bicycle''),
      (Num 3, Str ''Borrowed bicycle''),
      (Num 4, Str ''Rental bicycle''),
      (Num 6, Str ''Household vehicle 1''),
      (Num 7, Str ''Household vehicle 2''),
      (Num 8, Str ''Household vehicle 3''),
      (Num 9, Str ''Household vehicle 4''),
      (Num 10, Str ''Household vehicle 5''),
      (Num 11, Str ''Household vehicle 6''),
      (Num 12, Str ''Household vehicle 7''),
      (Num 16, Str ''Other household vehicle''),
      (Num 17, Str ''Rental car''),
      (Num 18, Str ''Carshare''),
      (Num 21, Str ''Vanpool''),
      (Num 22, Str ''Other auto''),
      (Num 23, Str ''Bus''),
      (Num 24, Str ''School bus''),
      (Num 25, Str ''Intercity bus''),
      (Num 26, Str ''Shuttle bus''),
      (Num 27, Str ''Paratransit''),
      (Num 28, Str ''Other bus''),
      (Num 30, Str ''Subway''),
      (Num 31, Str ''Airplane''),
      (Num 32, Str ''Ferry or water taxi''),
      (Num 33, Str ''Work car''),
      (Num 34, Str ''Friends car''),
      (Num 36, Str ''Taxi - Regular''),
      (Num 37, Str ''Taxi - Rideshare''),
      (Num 38, Str ''University bus or shuttle''),
      (Num 39, Str ''Rail - Light''),
      (Num 41, Str ''Rail - Intercity''),
      (Num 42, Str ''Rail - Other''),
      (Num 43, Str ''Skateboard''),
      (Num 44, Str ''Golf cart''),
      (Num 45, Str ''ATV''),
      (Num 47, Str ''Other household motorcycle''),
      (Num 55, Str ''Express bus/Rapid''),
      (Num 97, Str ''Other mode''),
      (Num 150, Str ''San Diego Coaster Line''),
      (Num (- 9999), Str ''Technical error''),
      (Num (- 9998), Str ''Participant non-response''),
      (Null, Str ''Not Applicable'')]"

definition trips_map_mode3 :: "(cell \<times> cell) list" where
  "trips_map_mode3 = [
      (Num 1, Str ''Walk/jog/wheelchair''),
      (Num 2, Str ''Personal bicycle''),
      (Num 3, Str ''Borrowed bicycle''),
      (Num 4, Str ''Rental bicycle''),
      (Num 6, Str ''Household vehicle 1''),
      (Num 7, Str ''Household vehicle 2''),
      (Num 8, Str ''Household vehicle 3''),
      (Num 9, Str ''Household vehicle 4''),
      (Num 10, Str ''Household vehicle 5''),
      (Num 11, Str ''Household vehicle 6''),
      (Num 12, Str ''Household vehicle 7''),
      (Num 16, Str ''Other household vehicle''),
      (Num 17, Str ''Rental car''),
      (Num 18, Str ''Carshare''),
      (Num 21, Str ''Vanpool''),
      (Num 22, Str ''Other auto''),
      (Num 23, Str ''Bus''),
      (Num 24, Str ''School bus''),
      (Num 25, Str ''Intercity bus''),
      (Num 26, Str ''Shuttle bus''),
      (Num 27, Str ''Paratransit''),
      (Num 28, Str ''Other bus''),
      (Num 30, Str ''Subway''),
      (Num 31, Str ''Airplane''),
      (Num 32, Str ''Ferry or water taxi''),
      (Num 33, Str ''Work car''),
      (Num 34, Str ''Friends car''),
      (Num 36, Str ''Taxi - Regular''),
      (Num 37, Str ''Taxi - Rideshare''),
      (Num 38, Str ''University bus or shuttle''),
      (Num 39, Str ''Rail - Light''),
      (Num 41, Str ''Rail - Intercity''),
      (Num 42, Str ''Rail - Other''),
      (Num 43, Str ''Skateboard''),
      (Num 44, Str ''Golf cart''),
      (Num 45, Str ''ATV''),
      (Num 47, Str ''Other household motorcycle''),
      (Num 55, Str ''Express bus/Rapid''),
      (Num 97, Str ''Other mode''),
      (Num 150, Str ''San Diego Coaster Line''),
      (Num (- 9999), Str ''Technical error''),
      (Num (- 9998), Str ''Participant non-response''),
      (Null, Str ''Not Applicable'')]"

definition trips_map_mode4 :: "(cell \<times> cell) list" where
  "trips_map_mode4 = [
      (Num 1, Str ''Walk/jog/wheelchair''),
      (Num 2, Str ''Personal bicycle''),
      (Num 3, Str ''Borrowed bicycle''),
      (Num 4, Str ''Rental bicycle''),
      (Num 6, Str ''Household vehicle 1''),
      (Num 7, Str ''Household vehicle 2''),
      (Num 8, Str ''Household vehicle 3''),
      (Num 9, Str ''Household vehicle 4''),
      (Num 10, Str ''Household vehicle 5''),
      (Num 11, Str ''Household vehicle 6''),
      (Num 12, Str ''Household vehicle 7''),
      (Num 16, Str ''Other household vehicle''),
      (Num 17, Str ''Rental car''),
      (Num 18, Str ''Carshare''),
      (Num 21, Str ''Vanpool''),
      (Num 22, Str ''Other auto''),
      (Num 23, Str ''Bus''),
      (Num 24, Str ''School bus''),
      (Num 25, Str ''Intercity bus''),
      (Num 26, Str ''Shuttle bus''),
      (Num 27, Str ''Paratransit''),
      (Num 28, Str ''Other bus''),
      (Num 30, Str ''Subway''),
      (Num 31, Str ''Airplane''),
      (Num 32, Str ''Ferry or water taxi''),
      (Num 33, Str ''Work car''),
      (Num 34, Str ''Friends car''),
      (Num 36, Str ''Taxi - Regular''),
      (Num 37, Str ''Taxi - Rideshare''),
      (Num 38, Str ''University bus or shuttle''),
      (Num 39, Str ''Rail - Light''),
      (Num 41, Str ''Rail - Intercity''),
      (Num 42, Str ''Rail - Other''),
      (Num 43, Str ''Skateboard''),
      (Num 44, Str ''Golf cart''),
      (Num 45, Str ''ATV''),
      (Num 47, Str ''Other household motorcycle''),
      (Num 55, Str ''Express bus/Rapid''),
      (Num 97, Str ''Other mode''),
      (Num 150, Str ''San Diego Coaster Line''),
      (Num (- 9999), Str ''Technical error''),
      (Num (- 9998), Str ''Participant non-response''),
      (Null, Str ''Not Applicable'')]"

definition trips_map_transit_access :: "(cell \<times> cell) list" where
  "trips_map_transit_access = [
      (Num 1, Str ''Walked or jogged''),
      (Num 2, Str ''Rode a bike''),
      (Num 3, Str ''Drove and parked a car''),
      (Num 4, Str ''Got dropped off''),
      (Num 5, Str ''Took a taxi''),
      (Num 6, Str ''Transferred from other transit''),
      (Num 7, Str ''Was already at the stop''),
      (Num 97, Str ''Other''),
      (Num 99, Str ''Not Applicable''),
      (Null, Str ''Missing'')]"

definition trips_map_transit_egress :: "(cell \<times> cell) list" where
  "trips_map_transit_egress = [
      (Num 1, Str ''Walked or jogged''),
      (Num 2, Str ''Rode a bike''),
      (Num 3, Str ''Drove and parked a car''),
      (Num 4, Str ''Got dropped off''),
      (Num 5, Str ''Took a taxi''),
      (Num 6, Str ''Transferred from other transit''),
      (Num 7, Str ''Was already at the stop''),
      (Num 97, Str ''Other''),
      (Num 99, Str ''Not Applicable''),
      (Null, Str ''Missing'')]"

definition trips_map_google_mode :: "(cell \<times> cell) list" where
  "trips_map_google_mode = [
      (Str ''DRIVE'', Str ''DRIVE''),
      (Str ''TRANSIT'', Str ''TRANSIT''),
      (Str ''WALK/BIKE'', Str ''WALK/BIKE''),
      (Null, Str ''Not Applicable'')]"

definition trips_map_driver :: "(cell \<times> cell) list" where
  "trips_map_driver = [
      (Num 1, Str ''Driver''),
      (Num 2, Str ''Passenger''),
      (Num 3, Str ''Both (switched drivers during trip)''),
      (Null, Str ''Missing'')]"

definition trips_map_toll_no :: "(cell \<times> cell) list" where
  "trips_map_toll_no = [
      (Num 1, Str ''No''),
      (Num 0, Str ''Yes''),
      (Num 99, Str ''Not Applicable''),
      (Null, Str ''Missing'')]"

definition trips_map_toll_express :: "(cell \<times> cell) list" where
  "trips_map_toll_express = [
      (Num 0, Str ''No''),
      (Num 1, Str ''Yes''),
      (Num 99, Str ''Not Applicable''),
      (Null, Str ''Missing'')]"

definition trips_map_parklocation :: "(cell \<times> cell) list" where
  "trips_map_parklocation = [
      (Num 1, Str ''My own driveway/garage''),
      (Num 2, Str ''Someone elses driveway''),
      (Num 3, Str ''Parking lot/garage''),
      (Num 4, Str ''On street parking''),
      (Num 5, Str ''Park & Ride lot''),
      (Num 6, Str ''Did not park (e.g., waited, drop-off, drive-thru)''),
      (Num 97, Str ''Other''),
      (Num (- 9999), Str ''Technical error''),
      (Num (- 9998), Str ''Participant non-response''),
      (Null, Str ''Missing'')]"

definition trips_map_parktype :: "(cell \<times> cell) list" where
  "trips_map_parktype = [
      (Num 1, Str ''Free parking (no cost)''),
      (Num 2, Str ''Used a parking pass (any type)''),
      (Num 3, Str ''Paid via cash, credit card, or ticket(s)''),
      (Num 4, Str ''Reserved parking service (e.g., ParkingPanda)''),
      (Num 5, Str ''Another person paid''),
      (Num 97, Str ''Other''),
      (Num (- 9999), Str ''Technical error''),
      (Num (- 9998), Str ''Participant non-response''),
      (Null, Str ''Missing'')]"

definition trips_map_park_cost_dk :: "(cell \<times> cell) list" where
  "trips_map_park_cost_dk = [
      (Num 0, Str ''No''),
      (Num 1, Str ''Yes''),
      (Null, Str ''Missing'')]"

definition trips_map_taxitype :: "(cell \<times> cell) list" where
  "trips_map_taxitype = [
      (Num 1, Str ''I paid the fare myself (no reimbursement)''),
      (Num 2, Str ''Employer paid (I am reimbursed)''),
      (Num 3, Str ''Split/shared fare with other(s)''),
      (Num 4, Str ''Someone else paid 100% (all of taxi fare)''),
      (Num 97, Str ''Other''),
      (Num (- 9999), Str ''Technical error''),
      (Num (- 9998), Str ''Participant non-response''),
      (Null, Str ''Missing'')]"

definition trips_map_taxi_cost_dk :: "(cell \<times> cell) list" where
  "trips_map_taxi_cost_dk = [
      (Num 0, Str ''No''),
      (Num 1, Str ''Yes''),
      (Null, Str ''Missing'')]"

definition trips_map_airtype :: "(cell \<times> cell) list" where
  "trips_map_airtype = [
      (Num 1, Str ''Personally paid the airfare cost''),
      (Num 2, Str ''Employer paid 100%''),
      (Num 3, Str ''Used miles/points to purchase flight''),
      (Num 4, Str ''Someone else paid 100% (all of airfare cost)''),
      (Num 97, Str ''Other''),
      (Num (- 9999), Str ''Technical error''),
      (Num (- 9998), Str ''Participant non-response''),
      (Null, Str ''Missing'')]"

definition trips_map_airfare_cost_dk :: "(cell \<times> cell) list" where
  "trips_map_airfare_cost_dk = [
      (Num 0, Str ''No''),
      (Num 1, Str ''Yes''),
      (Null, Str ''Missing'')]"

definition trips_map_bustype :: "(cell \<times> cell) list" where
  "trips_map_bustype = [
      (Num (- 9999), Str ''Technical error''),
      (Num (- 9998), Str ''Participant non-response''),
      (Num 1, Str ''Free (no cost)''),
      (Num 2, Str ''Used pass (any type)''),
      (Num 3, Str ''Cash, credit card, or ticket(s)''),
      (Num 97, Str ''Other''),
      (Num 98, Str ''Do not know''),
      (Null, Str ''Missing'')]"

definition trips_map_bus_cost_dk :: "(cell \<times> cell) list" where
  "trips_map_bus_cost_dk = [
      (Num 0, Str ''No''),
      (Num 1, Str ''Yes''),
      (Null, Str ''Missing'')]"

definition trips_map_railtype :: "(cell \<times> cell) list" where
  "trips_map_railtype = [
      (Num 1, Str ''Free (no cost)''),
      (Num 2, Str ''Used pass (any type)''),
      (Num 3, Str ''Cash, credit card, or ticket(s)''),
      (Num 97, Str ''Other''),
      (Num 98, Str ''Do not know''),
      (Num (- 9999), Str ''Technical error''),
      (Num (- 9998), Str ''Participant non-response''),
      (Null, Str ''Missing'')]"

definition trips_map_rail_cost_dk :: "(cell \<times> cell) list" where
  "trips_map_rail_cost_dk = [
      (Num 0, Str ''No''),
      (Num 1, Str ''Yes''),
      (Null, Str ''Missing'')]"

definition trips_map_ferrytype :: "(cell \<times> cell) list" where
  "trips_map_ferrytype = [
      (Num 1, Str ''Free (no cost)''),
      (Num 2, Str ''Used pass (any type)''),
      (Num 3, Str ''Cash, credit card, or ticket(s)''),
      (Num 97, Str ''Other''),
      (Num 98, Str ''Do not know''),
      (Null, Str ''Missing'')]"

definition trips_map_ferry_cost_dk :: "(cell \<times> cell) list" where
  "trips_map_ferry_cost_dk = [
      (Num 0, Str ''No''),
      (Num 1, Str ''Yes''),
      (Null, Str ''Missing'')]"

definition trips_map_parkride_lot :: "(cell \<times> cell) list" where
  "trips_map_parkride_lot = [
      (Num 1, Str ''Lot #16 Poway Rd at Sabre Springs Pkwy''),
      (Num 2, Str ''Lot #17 I-8 at Taylor St''),
      (Num 3, Str ''Lot #20 I-805 at Governor Dr''),
      (Num 4, Str ''Lot #24 I-805 at Mira Mesa Blvd & Vista Sorrento Pkwy''),
      (Num 5, Str ''Lot #26 Carmel Mountain Rd at Rancho Carmel Dr''),
      (Num 6, Str ''Lot #31 SR 56 at Rancho Carmel Dr''),
      (Num 7, Str ''Lot #4 Carmel Mountain Rd at Freeport Rd''),
      (Num 8, Str ''Lot #43 I-5 at Gilman Dr''),
      (Num 9, Str ''Lot #51 I-15 at Rancho Penasquitos Blvd''),
      (Num 10, Str ''Lot #53 Carmel Mountain Rd at Paseo Cardiel''),
      (Num 11, Str ''Lot #57 Carmel Mountain Rd at Stoney Creek Rd''),
      (Num 12, Str ''Lot #6 I-15 at Mira Mesa Blvd''),
      (Num 13, Str ''Lot #65 I-15 at Rancho Bernardo Rd''),
      (Num 14, Str ''Lot #7 I-5 at Carmel Valley Rd & Sorrento Valley Rd''),
      (Num 15, Str ''Lot #76 I-15 at Scripps Poway Pkwy''),
      (Num 16, Str ''Lot #78 I-805 at Childrens Way''),
      (Num 17, Str ''Lot #80 Caliente Ave''),
      (Num 18, Str ''Lot #1 SR 94 at Sweetwater Springs Blvd''),
      (Num 19, Str ''Lot #28 SR 94 at Potrero Post Office''),
      (Num 20, Str ''Lot #33 I-15 at Deer Springs Rd''),
      (Num 21, Str ''Lot #34 I-15 at Mountain Meadow Rd''),
      (Num 22, Str ''Lot #35 I-15 at Gopher Canyon Rd''),
      (Num 23, Str ''Lot #37 SR 94 at Avocado Blvd''),
      (Num 24, Str ''Lot #40 SR 54 at Jamacha Blvd''),
      (Num 25, Str ''Lot #71 Sweetwater Springs Blvd at Austin Dr''),
      (Num 26, Str ''Lot #11 SR 78 at Broadway''),
      (Num 27, Str ''Lot #3 Felicita Ave at Escondido Blvd''),
      (Num 28, Str ''Lot #30 I-15 at El Norte Pkwy''),
      (Num 29, Str ''Lot #38 7 Oakes Rd at El Norte Pkwy''),
      (Num 30, Str ''Lot #81 Westfield North County''),
      (Num 31, Str ''Lot #22 I-8 at Murray Dr''),
      (Num 32, Str ''Lot #59 Bancroft Dr at Grossmont Blvd''),
      (Num 33, Str ''Lot #60 Severin Dr at Bancroft Dr''),
      (Num 34, Str ''Lot #61 Severin Dr at Murray Dr''),
      (Num 35, Str ''Lot #8 Lemon Grove Ave at High St''),
      (Num 36, Str ''Lot #39 SR 78 at College Blvd (South)''),
      (Num 37, Str ''Lot #44 I-5 at SR 78 & Moreno St''),
      (Num 38, Str ''Lot #45 SR 78 at College Blvd (North)''),
      (Num 39, Str ''Lot #5 Maxson St at Barnes St''),
      (Num 40, Str ''Lot #73 Mission Ave at Frontier Dr''),
      (Num 41, Str ''Lot #32 I-5 at La Costa Ave''),
      (Num 42, Str ''Lot #47 I-5 at Birmingham Dr''),
      (Num 43, Str ''Lot #62 Encinitas Blvd at Calle Magdelena''),
      (Num 44, Str ''Lot #10 SR 67 at Mapleview St''),
      (Num 45, Str ''Lot #2 SR 67 at Riverford Rd & Woodside Ave''),
      (Num 46, Str ''Lot #42 I-8 at Lake Jennings Park Rd''),
      (Num 47, Str ''Lot #48 Twin Peaks Rd at Budwin Ln''),
      (Num 48, Str ''Lot #77 SR 67 at Poway Rd''),
      (Num 49, Str ''Lot #25 SR 54 at Washington Ave''),
      (Num 50, Str ''Lot #41 I-8 at Los Coches Rd''),
      (Num 51, Str ''Lot #63 SR 67 at Day St''),
      (Num 52, Str ''Lot #75 SR 67 at Dye Rd''),
      (Num 53, Str ''Lot #70 Mission Gorge Rd at Big Rock Dr''),
      (Num 54, Str ''Lot #72 North Magnolia Ave at Alexander Way''),
      (Num 55, Str ''Lot #50 Telegraph Canyon Rd at Paseo Del Ray''),
      (Num 56, Str ''Lot #56 East H St at Buena Vista Way''),
      (Num 57, Str ''Lot #46 SR 76 at Sweetgrass Ln''),
      (Num 58, Str ''Lot #29 I-8 at Japatul Valley Rd''),
      (Num 59, Str ''Lot #69 SR 78 at Barham Dr''),
      (Num 60, Str ''Lot #19 I-15 at SR 76''),
      (Num 61, Str ''Lot #21 SR 78 at Sunset Dr & Seaview Pl''),
      (Num 62, Str ''Lot #12 Lemon Grove Ave at Lincoln St''),
      (Num 63, Str ''Lot #9 I-805 at Sweetwater Rd''),
      (Null, Str ''Not Applicable'')]"

definition trips_map_parkride_city :: "(cell \<times> cell) list" where
  "trips_map_parkride_city = [
      (Num 1, Str ''Bonsall''),
      (Num 2, Str ''Chula Vista''),
      (Num 3, Str ''Descanso''),
      (Num 4, Str ''El Cajon''),
      (Num 5, Str ''Encinitas''),
      (Num 6, Str ''Escondido''),
      (Num 7, Str ''La Mesa''),
      (Num 8, Str ''Lakeside''),
      (Num 9, Str ''Lemon Grove''),
      (Num 10, Str ''National City''),
      (Num 11, Str ''Oceanside''),
      (Num 12, Str ''Pala''),
      (Num 13, Str ''Poway''),
      (Num 14, Str ''Ramona''),
      (Num 15, Str ''San Diego''),
      (Num 16, Str ''San Diego County''),
      (Num 17, Str ''San Marcos''),
      (Num 18, Str ''Santee''),
      (Num 19, Str ''Vista''),
      (Null, Str ''Not Applicable'')]"

definition trips_mappings :: "(string \<times> (cell \<times> cell) list) list" where
  "trips_mappings = [
      (''travel_dow'', trips_map_travel_dow),
      (''data_source'', trips_map_data_source),
      (''svy_complete'', trips_map_svy_complete),
      (''day_hhcomplete'', trips_map_day_hhcomplete),
      (''pday_complete'', trips_map_pday_complete),
      (''error'', trips_map_error),
      (''flag_teleport'', trips_map_flag_teleport),
      (''copied_trip'', trips_map_copied_trip),
      (''analyst_merged'', trips_map_analyst_merged),
      (''analyst_split'', trips_map_analyst_split),
      (''user_merged'', trips_map_user_merged),
      (''user_split'', trips_map_user_split),
      (''added_trip'', trips_map_added_trip),
      (''nonproxy_derived_trip'', trips_map_nonproxy_derived_trip),
      (''proxy_added_trip'', trips_map_proxy_added_trip),
      (''unlinked_transit_trip'', trips_map_unlinked_transit_trip),
      (''o_purpose'', trips_map_o_purpose),
      (''o_purpose_inferred'', trips_map_o_purpose_inferred),
      (''d_purpose'', trips_map_d_purpose),
      (''d_purpose_inferred'', trips_map_d_purpose_inferred),
      (''travelers_total'', trips_map_travelers_total),
      (''travelers_hh'', trips_map_travelers_hh),
      (''travelers_nonhh'', trips_map_travelers_nonhh),
      (''mode1'', trips_map_mode1),
      (''mode2'', trips_map_mode2),
      (''mode3'', trips_map_mode3),
      (''mode4'', trips_map_mode4),
      (''transit_access'', trips_map_transit_access),
      (''transit_egress'', trips_map_transit_egress),
      (''google_mode'', trips_map_google_mode),
      (''driver'', trips_map_driver),
      (''toll_no'', trips_map_toll_no),
      (''toll_express'', trips_map_toll_express),
      (''parklocation'', trips_map_parklocation),
      (''parktype'', trips_map_parktype),
      (''park_cost_dk'', trips_map_park_cost_dk),
      (''taxitype'', trips_map_taxitype),
      (''taxi_cost_dk'', trips_map_taxi_cost_dk),
      (''airtype'', trips_map_airtype),
      (''airfare_cost_dk'', trips_map_airfare_cost_dk),
      (''bustype'', trips_map_bustype),
      (''bus_cost_dk'', trips_map_bus_cost_dk),
      (''railtype'', trips_map_railtype),
      (''rail_cost_dk'', trips_map_rail_cost_dk),
      (''ferrytype'', trips_map_ferrytype),
      (''ferry_cost_dk'', trips_map_ferry_cost_dk),
      (''parkride_lot'', trips_map_parkride_lot),
      (''parkride_city'', trips_map_parkride_city)]"

definition trips_missing_cols :: "string list" where
  "trips_missing_cols = [
      ''revised_count'', ''origin_name'', ''destination_name'', ''origin_address'',
      ''destination_address'', ''o_purpose_other'', ''d_purpose_other'']"

definition trips_transit_modes :: "cell list" where
  "trips_transit_modes = [
      Str ''VanpoolBus'', Str ''School bus'', Str ''Intercity bus'', Str ''Shuttle bus'',
      Str ''Paratransit'', Str ''Other bus'', Str ''Subway'', Str ''Ferry or water taxi'',
      Str ''University bus or shuttle'', Str ''Rail - Light'', Str ''Rail - Intercity'',
      Str ''Rail - Other'', Str ''Express bus/Rapid'', Str ''San Diego Coaster Line'']"

definition trips_auto_modes :: "cell list" where
  "trips_auto_modes = [
      Str ''Household vehicle 1'', Str ''Household vehicle 2'', Str ''Household vehicle 3'',
      Str ''Household vehicle 4'', Str ''Household vehicle 5'', Str ''Household vehicle 6'',
      Str ''Household vehicle 7'', Str ''Other household vehicle'', Str ''Rental car'',
      Str ''Carshare'', Str ''Other auto'', Str ''Work car'', Str ''Friends car'',
      Str ''Taxi - Regular'', Str ''Taxi - Rideshare'']"

definition trips_auto_nontaxi_modes :: "cell list" where
  "trips_auto_nontaxi_modes = [
      Str ''Household vehicle 1'', Str ''Household vehicle 2'', Str ''Household vehicle 3'',
      Str ''Household vehicle 4'', Str ''Household vehicle 5'', Str ''Household vehicle 6'',
      Str ''Household vehicle 7'', Str ''Other household vehicle'', Str ''Rental car'',
      Str ''Carshare'', Str ''Other auto'', Str ''Work car'', Str ''Friends car'']"

definition trips_taxi_modes :: "cell list" where
  "trips_taxi_modes = [
      Str ''Taxi - Regular'', Str ''Taxi - Rideshare'']"

definition trips_bus_modes :: "cell list" where
  "trips_bus_modes = [
      Str ''Bus'', Str ''Intercity bus'', Str ''Express bus/Rapid'']"

definition trips_rail_modes :: "cell list" where
  "trips_rail_modes = [
      Str ''Bus'', Str ''Intercity bus'', Str ''Express bus/Rapid'']"


text \<open>
  The statements after the recoding, in source order. The loop over the code tables
  has added the category "Not Applicable" to every recoded column. The list
  \<open>rail_modes\<close> holds the three bus labels, and the statement on
  \<open>airfare_cost_dk\<close> tests \<open>taxitype\<close>, as in the source. The two weight columns do
  not exist before their first assignment, which leaves \<open>NaN\<close> where the mask is
  false; the third weight statement overwrites \<open>weight_trip\<close> with
  \<open>1 / travelers_hh\<close> where \<open>condition\<close> holds.
\<close>

definition trips_steps :: "(cell \<times> cell) geolib \<Rightarrow> (row \<Rightarrow> row) list" where
  "trips_steps G = [
      fillna trips_missing_cols (Str ''Missing''),
      loc (\<lambda>r. r ''data_source'' = Str ''rMove'')
        [
          ''origin_name'', ''origin_address'', ''destination_name'', ''destination_address'',
          ''toll_no'', ''toll_noexpress'', ''toll_express'', ''transit_access'',
          ''transit_egress'', ''parkride_lot'', ''parkride_city''] (Str ''Not Applicable''),
      loc (\<lambda>r. r ''data_source'' = Str ''Online'')
        [
          ''revised_count'', ''error'', ''flag_teleport'', ''copied_trip'', ''analyst_merged'',
          ''analyst_split'', ''user_merged'', ''user_split'', ''added_trip'',
          ''nonproxy_derived_trip'', ''proxy_added_trip'', ''o_purpose_inferred'',
          ''d_purpose_inferred''] (Str ''Not Applicable''),
      loc (\<lambda>r. r ''data_source'' = Str ''Online'')
        [''location_tripid''] (Num 0),
      loc (\<lambda>r. \<not> isin (r ''o_purpose'') [Str ''Other'', Str ''Other purpose''])
        [''o_purpose_other''] (Str ''Not Applicable''),
      loc (\<lambda>r. \<not> isin (r ''d_purpose'') [Str ''Other'', Str ''Other purpose''])
        [''d_purpose_other''] (Str ''Not Applicable''),
      loc (\<lambda>r. \<not> isin (r ''mode1'') trips_transit_modes
             \<and> \<not> isin (r ''mode2'') trips_transit_modes
             \<and> \<not> isin (r ''mode3'') trips_transit_modes
             \<and> \<not> isin (r ''mode4'') trips_transit_modes)
        [''transit_access'', ''transit_egress''] (Str ''Not Applicable''),
      loc (\<lambda>r. \<not> isin (r ''mode1'') trips_auto_modes
             \<and> \<not> isin (r ''mode2'') trips_auto_modes
             \<and> \<not> isin (r ''mode3'') trips_auto_modes
             \<and> \<not> isin (r ''mode4'') trips_auto_modes)
        [''toll_no'', ''toll_noexpress'', ''toll_express''] (Str ''Not Applicable''),
      loc (\<lambda>r. \<not> isin (r ''mode1'') trips_auto_nontaxi_modes
             \<and> \<not> isin (r ''mode2'') trips_auto_nontaxi_modes
             \<and> \<not> isin (r ''mode3'') trips_auto_nontaxi_modes
             \<and> \<not> isin (r ''mode4'') trips_auto_nontaxi_modes)
        [''driver'', ''parklocation''] (Str ''Not Applicable''),
      loc (\<lambda>r. \<not> isin (r ''parklocation'') [
               Str ''Someone elses driveway'',
               Str ''Parking lot/garage'',
               Str ''On street parking'',
               Str ''Park & Ride lot''])
        [''parktype''] (Str ''Not Applicable''),
      loc (\<lambda>r. \<not> isin (r ''parktype'') [
               Str ''Paid via cash, credit card, or ticket(s)'',
               Str ''Reserved parking service (e.g., ParkingPanda)'',
               Str ''Another person paid''])
        [''park_cost_dk''] (Str ''Not Applicable''),
      loc (\<lambda>r. r ''parklocation'' \<noteq> Str ''Park & Ride lot'')
        [''parkride_lot'', ''parkride_city''] (Str ''Not Applicable''),
      loc (\<lambda>r. \<not> isin (r ''mode1'') trips_taxi_modes
             \<and> \<not> isin (r ''mode2'') trips_taxi_modes
             \<and> \<not> isin (r ''mode3'') trips_taxi_modes
             \<and> \<not> isin (r ''mode4'') trips_taxi_modes)
        [''taxitype''] (Str ''Not Applicable''),
      loc (\<lambda>r. \<not> isin (r ''taxitype'') [
               Str ''I paid the fare myself (no reimbursement)'',
               Str ''Employer paid (I am reimbursed)'',
               Str ''Split/shared fare with other(s)''])
        [''taxi_cost_dk''] (Str ''Not Applicable''),
      loc (\<lambda>r. r ''mode1'' \<noteq> Str ''Airplane''
             \<and> r ''mode2'' \<noteq> Str ''Airplane''
             \<and> r ''mode3'' \<noteq> Str ''Airplane''
             \<and> r ''mode4'' \<noteq> Str ''Airplane'')
        [''airtype''] (Str ''Not Applicable''),
      loc (\<lambda>r. \<not> isin (r ''taxitype'') [
               Str ''Personally paid the airfare cost'',
               Str ''Employer paid 100%''])
        [''airfare_cost_dk''] (Str ''Not Applicable''),
      loc (\<lambda>r. \<not> isin (r ''mode1'') trips_bus_modes
             \<and> \<not> isin (r ''mode2'') trips_bus_modes
             \<and> \<not> isin (r ''mode3'') trips_bus_modes
             \<and> \<not> isin (r ''mode4'') trips_bus_modes)
        [''bustype''] (Str ''Not Applicable''),
      loc (\<lambda>r. r ''bustype'' \<noteq> Str ''Cash, credit card, or ticket(s)'')
        [''bus_cost_dk''] (Str ''Not Applicable''),
      loc (\<lambda>r. \<not> isin (r ''mode1'') trips_rail_modes
             \<and> \<not> isin (r ''mode2'') trips_rail_modes
             \<and> \<not> isin (r ''mode3'') trips_rail_modes
             \<and> \<not> isin (r ''mode4'') trips_rail_modes)
        [''railtype''] (Str ''Not Applicable''),
      loc (\<lambda>r. r ''railtype'' \<noteq> Str ''Cash, credit card, or ticket(s)'')
        [''rail_cost_dk''] (Str ''Not Applicable''),
      loc (\<lambda>r. r ''mode1'' \<noteq> Str ''Ferry or water taxi''
             \<and> r ''mode2'' \<noteq> Str ''Ferry or water taxi''
             \<and> r ''mode3'' \<noteq> Str ''Ferry or water taxi''
             \<and> r ''mode4'' \<noteq> Str ''Ferry or water taxi'')
        [''ferrytype''] (Str ''Not Applicable''),
      loc (\<lambda>r. r ''ferrytype'' \<noteq> Str ''Cash, credit card, or ticket(s)'')
        [''ferry_cost_dk''] (Str ''Not Applicable''),
      strip_bars ''origin_address'',
      strip_bars ''destination_address'',
      loc (\<lambda>r. num_ge (r ''h_complete_weekdays'') 1)
        [''weight_person_trip''] (Num 1),
      loc (\<lambda>r. num_ge (r ''h_complete_weekdays'') 1)
        [''weight_trip''] (Num 1),
      loc_with (\<lambda>r. num_ge (r ''h_complete_weekdays'') 1
                  \<and> isin (r ''travelers_hh'') (map (\<lambda>k. Num (of_nat k)) [1..<11]))
        ''weight_trip'' (\<lambda>r. reciprocal (r ''travelers_hh'')),
      set_point_wkt G ''EPSG:2230'' ''origin_shape'' ''origin_lng'' ''origin_lat'',
      set_point_wkt G ''EPSG:2230'' ''destination_shape'' ''destination_lng'' ''destination_lat'']"

definition trips_rename :: "(string \<times> string) list" where
  "trips_rename = [
      (''tripid'', ''trip_id''), (''tripid_linked'', ''trip_id_linked''),
      (''location_tripid'', ''trip_id_location''), (''personid'', ''person_id''),
      (''hhid'', ''household_id''), (''traveldate'', ''travel_date''),
      (''daynum'', ''travel_day_number''), (''travel_dow'', ''travel_day_of_week''),
      (''svy_complete'', ''completed_trip_survey''), (''completed_at'', ''completed_date''),
      (''day_hhcomplete'', ''completed_household_survey''),
      (''pday_complete'', ''completed_person_survey''),
      (''h_complete_weekdays'', ''number_household_survey_weekdays''),
      (''analyst_merged'', ''analyst_merged_trip''), (''analyst_split'', ''analyst_split_trip''),
      (''user_merged'', ''user_merged_trip''), (''user_split'', ''user_split_trip''),
      (''origin_lat'', ''origin_latitude''), (''origin_lng'', ''origin_longitude''),
      (''destination_lat'', ''destination_latitude''),
      (''destination_lng'', ''destination_longitude''), (''o_purpose'', ''origin_purpose''),
      (''o_purpose_other'', ''origin_purpose_other_specify''),
      (''o_purpose_inferred'', ''origin_purpose_inferred''),
      (''d_purpose'', ''destination_purpose''),
      (''d_purpose_other'', ''destination_purpose_other_specify''),
      (''d_purpose_inferred'', ''destination_purpose_inferred''),
      (''travelers_total'', ''travelers''), (''travelers_hh'', ''travelers_household''),
      (''travelers_nonhh'', ''travelers_non_household''), (''mode1'', ''mode_1''),
      (''mode2'', ''mode_2''), (''mode3'', ''mode_3''), (''mode4'', ''mode_4''),
      (''transit_access'', ''mode_transit_access''),
      (''transit_egress'', ''mode_transit_egress''), (''toll_no'', ''toll_road''),
      (''toll_express'', ''toll_road_express''), (''parklocation'', ''parking_location''),
      (''parktype'', ''parking_pay_type''), (''parkcost'', ''parking_cost''),
      (''park_cost_dk'', ''parking_cost_dk''), (''parkegress_time'', ''parking_egress_duration''),
      (''taxitype'', ''taxi_pay_type''), (''taxicost'', ''taxi_cost''),
      (''airtype'', ''airplane_pay_type''), (''airfarecost'', ''airplane_cost''),
      (''airfare_cost_dk'', ''airplane_cost_dk''), (''bustype'', ''bus_pay_type''),
      (''buscost'', ''bus_cost''), (''railtype'', ''rail_pay_type''),
      (''railcost'', ''rail_cost''), (''ferrytype'', ''ferry_pay_type''),
      (''ferrycost'', ''ferry_cost''), (''trip_path_distance'', ''distance''),
      (''trip_duration'', ''duration''), (''trip_duration_reported'', ''duration_reported''),
      (''speed_mph'', ''speed''), (''h_multiday_factor'', ''weight_household_multiday_factor''),
      (''multiday_weight_456x'', ''weight_person_multiday_456x'')]"

definition trips_columns :: "string list" where
  "trips_columns = [
      ''trip_id'', ''trip_id_linked'', ''trip_id_location'', ''person_id'', ''household_id'',
      ''travel_date'', ''travel_day_number'', ''travel_day_of_week'', ''data_source'',
      ''completed_trip_survey'', ''completed_date'', ''completed_household_survey'',
      ''completed_person_survey'', ''number_household_survey_weekdays'', ''revised_at'',
      ''revised_count'', ''error'', ''flag_teleport'', ''copied_trip'', ''analyst_merged_trip'',
      ''analyst_split_trip'', ''user_merged_trip'', ''user_split_trip'', ''added_trip'',
      ''nonproxy_derived_trip'', ''proxy_added_trip'', ''unlinked_transit_trip'', ''origin_name'',
      ''origin_address'', ''origin_latitude'', ''origin_longitude'', ''origin_shape'',
      ''destination_name'', ''destination_address'', ''destination_latitude'',
      ''destination_longitude'', ''destination_shape'', ''origin_purpose'',
      ''origin_purpose_other_specify'', ''origin_purpose_inferred'', ''destination_purpose'',
      ''destination_purpose_other_specify'', ''destination_purpose_inferred'', ''departure_time'',
      ''arrival_time'', ''travelers'', ''travelers_household'', ''travelers_non_household'',
      ''mode_1'', ''mode_2'', ''mode_3'', ''mode_4'', ''mode_transit_access'',
      ''mode_transit_egress'', ''google_mode'', ''driver'', ''toll_road'', ''toll_road_express'',
      ''parking_location'', ''parking_pay_type'', ''parking_cost'', ''parking_cost_dk'',
      ''parking_egress_duration'', ''taxi_pay_type'', ''taxi_cost'', ''taxi_cost_dk'',
      ''airplane_pay_type'', ''airplane_cost'', ''airplane_cost_dk'', ''bus_pay_type'',
      ''bus_cost'', ''bus_cost_dk'', ''rail_pay_type'', ''rail_cost'', ''rail_cost_dk'',
      ''ferry_pay_type'', ''ferry_cost'', ''ferry_cost_dk'', ''parkride_lot'', ''parkride_city'',
      ''distance'', ''duration'', ''duration_reported'', ''speed'', ''weight_trip'',
      ''weight_person_trip'', ''weight_household_multiday_factor'',
      ''weight_person_multiday_456x'']"


text \<open>
  The method: read both files, complete the AT rows, concatenate (SDRTS first), recode,
  run the statements, rename and return the listed columns.
\<close>

definition trips_concat :: "frame \<Rightarrow> frame \<Rightarrow> frame" where
  "trips_concat sdrts at_df =
     map (usecols trips_sdrts_usecols) sdrts
     @ map (\<lambda>r. trips_at_defaults (usecols trips_at_usecols r)) at_df"

definition trips_row :: "(cell \<times> cell) geolib \<Rightarrow> row \<Rightarrow> row" where
  "trips_row G r = run (trips_steps G) (recode trips_mappings r)"

definition trips :: "(cell \<times> cell) geolib \<Rightarrow> frame \<Rightarrow> frame \<Rightarrow> out_row list" where
  "trips G sdrts at_df =
     map (\<lambda>r. select trips_columns (rename trips_rename r))
       (map (trips_row G) (trips_concat sdrts at_df))"

section \<open>Example inputs\<close>

text \<open>
  Two rows of the day files: one reports "No" (code 2) with two trips, the other, of
  the AT file, reports "Yes" (code 1) with no trip.
\<close>

definition day_example_sdrts :: row where
  "day_example_sdrts = (\<lambda>c. Null)(''num_trips'' := Num 2, ''trips_yesno'' := Num 2)"

definition day_example_at :: row where
  "day_example_at = (\<lambda>c. Null)(''num_trips'' := Num 0, ''trips_yesno'' := Num 1)"

text \<open>
  A geometry library to run the methods with: the identity projection, every geometry
  valid, one text for all.
\<close>

definition example_geolib :: "(cell \<times> cell) geolib" where
  "example_geolib = \<lparr>transform = (\<lambda>crs p. p), is_valid = (\<lambda>g. True), wkt = (\<lambda>g. ''POINT'')\<rparr>"

text \<open>A person under 5 years old (age code 1) reported as employed full-time (code 1).\<close>

definition persons_example_child :: row where
  "persons_example_child = (\<lambda>c. Null)(''age'' := Num 1, ''employment'' := Num 1)"

text \<open>
  A person aged 25-34 (code 5), employed full-time (code 1), on active duty within the
  region (code 2), who reports an occupation, a commute frequency and a commute mode.
\<close>

definition persons_example_soldier :: row where
  "persons_example_soldier = (\<lambda>c. Null)(''age'' := Num 5, ''employment'' := Num 1,
     ''military'' := Num 2, ''occupation'' := Num 55, ''commute_freq'' := Num 2,
     ''commute_mode'' := Num 1)"

text \<open>
  A walking trip (mode code 1, the other mode slots empty) that carries toll, driver
  and parking answers.
\<close>

definition trips_example_walk :: row where
  "trips_example_walk = (\<lambda>c. Null)(''mode1'' := Num 1, ''toll_no'' := Num 0,
     ''toll_express'' := Num 1, ''driver'' := Num 1, ''parklocation'' := Num 3)"

text \<open>A flight (mode code 31) paid personally (code 1) whose cost is not known (code 1).\<close>

definition trips_example_flight :: row where
  "trips_example_flight = (\<lambda>c. Null)(''mode1'' := Num 31, ''airtype'' := Num 1,
     ''airfare_cost_dk'' := Num 1)"

text \<open>
  A trip by light rail (code 39) and the Coaster (code 150) paid by cash, card or
  ticket (rail fare code 3).
\<close>

definition trips_example_rail :: row where
  "trips_example_rail = (\<lambda>c. Null)(''mode1'' := Num 39, ''mode2'' := Num 150,
     ''railtype'' := Num 3)"

section \<open>What a statement leaves alone\<close>

text \<open>
  Two facts about one statement, for following a column through a method: the
  statement keeps the column at a cell it already holds, or never writes the column.
\<close>

definition keeps :: "string \<Rightarrow> cell \<Rightarrow> (row \<Rightarrow> row) \<Rightarrow> bool" where
  "keeps c v step = (\<forall>r. r c = v \<longrightarrow> step r c = v)"

definition untouched :: "string \<Rightarrow> (row \<Rightarrow> row) \<Rightarrow> bool" where
  "untouched c step = (\<forall>r. step r c = r c)"

section \<open>Duplicate removal\<close>

lemma set_keep_first: "set (keep_first line) = set line"
  by (simp add: keep_first_def)

lemma distinct_keep_first: "distinct (keep_first line)"
  by (simp add: keep_first_def)

lemma keep_first_snoc:
  "keep_first (line @ [x]) = (if x \<in> set line then keep_first line else keep_first line @ [x])"
  by (simp add: keep_first_def)

lemma keep_first_Nil_iff: "keep_first line = [] \<longleftrightarrow> line = []"
  using set_keep_first [of line] by (metis set_empty)

lemma remove_duplicates_keep_first: "remove_duplicates line = keep_first line"
proof (induction line rule: rev_induct)
  case Nil
  show ?case by (simp add: remove_duplicates_def keep_first_def)
next
  case (snoc x xs)
  have "remove_duplicates (xs @ [x]) =
        (if x \<notin> set (remove_duplicates xs) then remove_duplicates xs @ [x]
         else remove_duplicates xs)"
    by (simp add: remove_duplicates_def)
  with snoc show ?case
    by (simp add: keep_first_snoc set_keep_first)
qed

lemma line_wkt_one_encode: "line_wkt_one G crs line = Inr (encode_line G crs line)"
proof (cases "line = []")
  case True
  then show ?thesis
    by (simp add: line_wkt_one_def encode_line_def keep_first_def)
next
  case False
  then have ne: "keep_first line \<noteq> []"
    by (simp add: keep_first_Nil_iff)
  then have len: "length (keep_first line) \<noteq> 0"
    by simp
  show ?thesis
  proof (cases "2 \<le> length (keep_first line)")
    case True
    with False ne show ?thesis
      by (simp add: line_wkt_one_def encode_line_def remove_duplicates_keep_first Let_def)
  next
    case short: False
    with len have one: "length (keep_first line) = 1"
      by linarith
    then have "keep_first line ! 0 = hd (keep_first line)"
      using ne by (simp add: hd_conv_nth)
    with False ne one show ?thesis
      by (simp add: line_wkt_one_def encode_line_def remove_duplicates_keep_first Let_def)
  qed
qed

lemma line_wkt_loop_encode:
  "line_wkt_loop G crs lines wkts = Inr (wkts @ map (encode_line G crs) lines)"
  by (induction lines arbitrary: wkts) (simp_all add: line_wkt_one_encode)

section \<open>The line encoder meets its specification\<close>

text \<open>
  Claim C2. For every list of coordinate lists, \<open>line_wkt\<close> raises nothing and returns,
  for each line, what \<open>encode_line\<close> describes: the duplicates are removed over the
  whole sequence, the first occurrence of each point staying in place
  (\<open>keep_first\<close>); two or more distinct points give the text of the line through them
  in that order, one distinct point gives the text of a point, the empty list gives
  null, and a geometry that fails the validity check gives null. In particular
  \<open>[(0,0),(0,0),(1,1)]\<close> and \<open>[(0,0),(1,1),(0,0)]\<close> are encoded as \<open>[(0,0),(1,1)]\<close> is,
  the single point \<open>[(2,3)]\<close> is encoded as a point and \<open>[]\<close> as null.
\<close>

theorem line_wkt_encode_line:
  fixes G :: "'p geolib" and H :: "(rat \<times> rat) geolib"
  shows "line_wkt G crs lines = Inr (map (encode_line G crs) lines)
    \<and> line_wkt H crs [[(0, 0), (0, 0), (1, 1)]] = line_wkt H crs [[(0, 0), (1, 1)]]
    \<and> line_wkt H crs [[(0, 0), (1, 1), (0, 0)]] = line_wkt H crs [[(0, 0), (1, 1)]]
    \<and> line_wkt H crs [[(0, 0), (1, 1)]] =
        Inr [if is_valid H (LineString [transform H crs (0, 0), transform H crs (1, 1)])
             then Some (wkt H (LineString [transform H crs (0, 0), transform H crs (1, 1)]))
             else None]
    \<and> line_wkt H crs [[(2, 3)]] =
        Inr [if is_valid H (Point (transform H crs (2, 3)))
             then Some (wkt H (Point (transform H crs (2, 3)))) else None]
    \<and> line_wkt H crs [[]] = Inr [None]"
proof -
  have run: "line_wkt K c ls = Inr (map (encode_line K c) ls)" for K :: "'q geolib" and c ls
    by (simp add: line_wkt_def line_wkt_loop_encode)
  have k1: "keep_first [(0, 0), (0, 0), (1, 1)] = [(0, 0), (1, 1 :: rat) :: rat \<times> rat]"
    by (simp add: keep_first_def)
  have k2: "keep_first [(0, 0), (1, 1), (0, 0)] = [(0, 0), (1, 1 :: rat) :: rat \<times> rat]"
    by (simp add: keep_first_def)
  have k3: "keep_first [(0, 0), (1, 1)] = [(0, 0), (1, 1 :: rat) :: rat \<times> rat]"
    by (simp add: keep_first_def)
  have k4: "keep_first [(2, 3)] = [(2, 3 :: rat) :: rat \<times> rat]"
    by (simp add: keep_first_def)
  have k5: "keep_first ([] :: (rat \<times> rat) list) = []"
    by (simp add: keep_first_def)
  show ?thesis
    by (simp add: run encode_line_def k1 k2 k3 k4 k5)
qed

section \<open>Reading a column after an assignment, a recoding, a renaming\<close>

lemma loc_apply:
  "loc test cols v r c = (if c \<in> set cols then (if test r then v else r c) else r c)"
  by (simp add: loc_def)

lemma fillna_apply:
  "fillna cols v r c = (if c \<in> set cols then (if r c = Null then v else r c) else r c)"
  by (simp add: fillna_def isnull_def)

lemma run_Nil: "run [] r = r"
  by (simp add: run_def)

lemma run_Cons: "run (step # steps) r = run steps (step r)"
  by (simp add: run_def)

lemma map_of_select: "map_of (select cols r) c = (if c \<in> set cols then Some (r c) else None)"
  by (induction cols) (simp_all add: select_def)

lemma recode_Nil: "recode [] r = r"
  by (simp add: recode_def)

lemma recode_Cons: "recode (fm # mappings) r = recode mappings (recode_field r fm)"
  by (simp add: recode_def)

lemma recode_field_apply:
  "recode_field r fm c = (if c = fst fm then map_cell (snd fm) (r c) else r c)"
  by (simp add: recode_field_def)

lemma recode_other: "c \<notin> fst ` set mappings \<Longrightarrow> recode mappings r c = r c"
  by (induction mappings arbitrary: r) (auto simp: recode_Nil recode_Cons recode_field_apply)

lemma recode_field_at:
  "distinct (map fst mappings) \<Longrightarrow> (c, m) \<in> set mappings \<Longrightarrow>
   recode mappings r c = map_cell m (r c)"
proof (induction mappings arbitrary: r)
  case Nil
  then show ?case by simp
next
  case (Cons fm mappings)
  show ?case
  proof (cases "fm = (c, m)")
    case True
    with Cons.prems have "c \<notin> fst ` set mappings" by auto
    then have "recode mappings (recode_field r fm) c = recode_field r fm c"
      by (rule recode_other)
    with True show ?thesis
      by (simp add: recode_Cons recode_field_apply)
  next
    case False
    with Cons.prems have in_tl: "(c, m) \<in> set mappings" and d: "distinct (map fst mappings)"
      and ne: "fst fm \<noteq> c"
      by (auto simp: rev_image_eqI)
    from Cons.IH [OF d in_tl] ne show ?thesis
      by (simp add: recode_Cons recode_field_apply)
  qed
qed

lemma in_arange:
  assumes "R \<in> set (arange col df)"
  obtains r i where "r \<in> set df" and "R = r(col := Num (of_nat i))"
  using assms by (auto simp: arange_def dest: in_set_zipE simp: enumerate_eq_zip)

lemma set_point_wkt_apply:
  "set_point_wkt G crs col lng lat r c =
     (if c = col then (case point_wkt_one G crs (r lng, r lat) of None \<Rightarrow> Null | Some w \<Rightarrow> Str w)
      else r c)"
  by (simp add: set_point_wkt_def)

lemmas step_simps = run_Cons run_Nil loc_apply fillna_apply set_point_wkt_apply isin_def

lemma keeps_loc: "keeps c v (loc test cols v)"
  by (simp add: keeps_def loc_def)

lemma keeps_fillna: "v \<noteq> Null \<Longrightarrow> keeps c v (fillna cols w)"
  by (simp add: keeps_def fillna_def isnull_def)

lemma untouched_keeps: "untouched c step \<Longrightarrow> keeps c v step"
  by (simp add: keeps_def untouched_def)

lemma untouched_loc: "c \<notin> set cols \<Longrightarrow> untouched c (loc test cols v)"
  by (simp add: untouched_def loc_def)

lemma untouched_fillna: "c \<notin> set cols \<Longrightarrow> untouched c (fillna cols v)"
  by (simp add: untouched_def fillna_def)

lemma untouched_set_point_wkt: "c \<noteq> col \<Longrightarrow> untouched c (set_point_wkt G crs col lng lat)"
  by (simp add: untouched_def set_point_wkt_def)

lemma run_append: "run (xs @ ys) r = run ys (run xs r)"
  by (simp add: run_def)

lemma run_keeps: "list_all (keeps c v) steps \<Longrightarrow> r c = v \<Longrightarrow> run steps r c = v"
  by (induction steps arbitrary: r) (simp_all add: run_Nil run_Cons keeps_def)

lemma run_untouched: "list_all (untouched c) steps \<Longrightarrow> run steps r c = r c"
  by (induction steps arbitrary: r) (simp_all add: run_Nil run_Cons untouched_def)

lemma run_split:
  "i < length steps \<Longrightarrow> run steps r = run (drop (Suc i) steps) ((steps ! i) (run (take i steps) r))"
proof -
  assume "i < length steps"
  then have "steps = take i steps @ [steps ! i] @ drop (Suc i) steps"
    by (simp add: id_take_nth_drop)
  then have "run steps r = run (take i steps @ [steps ! i] @ drop (Suc i) steps) r"
    by simp
  then show ?thesis
    by (simp add: run_append run_Cons run_Nil)
qed

lemma strip_bars_apply:
  "strip_bars col r c =
     (if c = col then (case r col of Str s \<Rightarrow> Str (filter (\<lambda>ch. ch \<noteq> CHR ''|'') s)
                           | Null \<Rightarrow> Null | Num x \<Rightarrow> Null)
      else r c)"
  by (simp add: strip_bars_def)

lemma loc_with_apply:
  "loc_with test col f r c = (if c = col then (if test r then f r else r c) else r c)"
  by (simp add: loc_with_def)

lemmas peel_simps = run_Cons run_Nil loc_apply fillna_apply set_point_wkt_apply
  strip_bars_apply loc_with_apply

lemma column_select:
  "column (select cols r) c = (if c \<in> set cols then r c else Null)"
  by (simp add: column_def map_of_select)

lemma map_cell_range: "map_cell m x = Null \<or> map_cell m x \<in> snd ` set m"
  by (auto simp: map_cell_def split: option.splits dest: map_of_SomeD intro: rev_image_eqI)

section \<open>The day table: trip count and trip indicator\<close>

lemma day_rows:
  assumes "out \<in> set (day sdrts at_df)"
  obtains r i where "out = select day_columns (rename day_rename ((day_row r)(''day_id'' := Num (of_nat i))))"
  using assms by (auto simp: day_def elim!: in_arange)

lemma day_out_number_trips:
  "map_of (select day_columns (rename day_rename R)) ''number_trips'' = Some (R ''num_trips'')"
  by (simp add: map_of_select day_columns_def rename_def day_rename_def)

lemma day_out_made_trips:
  "map_of (select day_columns (rename day_rename R)) ''made_trips'' = Some (R ''trips_yesno'')"
  by (simp add: map_of_select day_columns_def rename_def day_rename_def)

lemma day_steps_num_trips: "run day_steps m ''num_trips'' = m ''num_trips''"
  by (simp add: day_steps_def run_Cons run_Nil loc_apply)

lemma day_steps_trips_yesno:
  "run day_steps m ''trips_yesno'' =
     (if m ''num_trips'' = Num 0 then Str ''No''
      else if num_gt (m ''num_trips'') 0 then Str ''Yes'' else m ''trips_yesno'')"
  by (simp add: day_steps_def run_Cons run_Nil loc_apply)

lemma day_recode_num_trips: "recode day_mappings r ''num_trips'' = r ''num_trips''"
  by (rule recode_other) (simp add: day_mappings_def)

lemma day_row_num_trips: "day_row r ''num_trips'' = r ''num_trips''"
  by (simp add: day_row_def day_steps_num_trips day_recode_num_trips)

lemma day_row_trips_yesno:
  "day_row r ''trips_yesno'' =
     (if r ''num_trips'' = Num 0 then Str ''No''
      else if num_gt (r ''num_trips'') 0 then Str ''Yes''
      else recode day_mappings r ''trips_yesno'')"
  by (simp add: day_row_def day_steps_trips_yesno day_recode_num_trips)

text \<open>
  Claim C6. In every row of the day table, \<open>made_trips\<close> is "Yes" when
  \<open>number_trips\<close> is greater than 0 and "No" when it is 0, whatever the files
  reported in \<open>trips_yesno\<close>: the two assignments follow the recoding and no later
  statement writes the column.
\<close>

theorem day_made_trips_agrees:
  assumes "out \<in> set (day sdrts at_df)"
    and "map_of out ''number_trips'' = Some (Num n)"
  shows "(0 < n \<longrightarrow> map_of out ''made_trips'' = Some (Str ''Yes''))
       \<and> (n = 0 \<longrightarrow> map_of out ''made_trips'' = Some (Str ''No''))"
proof -
  from assms(1) obtain r i where
    out: "out = select day_columns (rename day_rename ((day_row r)(''day_id'' := Num (of_nat i))))"
    by (rule day_rows)
  from assms(2) have n: "r ''num_trips'' = Num n"
    by (simp add: out day_out_number_trips day_row_num_trips)
  have "map_of out ''made_trips'' = Some (day_row r ''trips_yesno'')"
    by (simp add: out day_out_made_trips)
  with n show ?thesis
    by (simp add: day_row_trips_yesno)
qed

lemma day_example:
  "day [day_example_sdrts] [day_example_at] =
     [select day_columns (rename day_rename
        ((day_row (usecols day_sdrts_usecols day_example_sdrts))(''day_id'' := Num 0))),
      select day_columns (rename day_rename
        ((day_row (day_at_defaults (usecols day_at_usecols day_example_at)))(''day_id'' := Num 1)))]"
  by (simp add: day_def day_concat_def arange_def enumerate_eq_zip upt_rec)

theorem day_made_trips_agrees_witness:
  "(let t = day [day_example_sdrts] [day_example_at] in
      t ! 0 \<in> set t \<and> map_of (t ! 0) ''number_trips'' = Some (Num 2)
      \<and> map_of (t ! 0) ''made_trips'' = Some (Str ''Yes'')
      \<and> t ! 1 \<in> set t \<and> map_of (t ! 1) ''number_trips'' = Some (Num 0)
      \<and> map_of (t ! 1) ''made_trips'' = Some (Str ''No''))"
proof -
  define t where "t = day [day_example_sdrts] [day_example_at]"
  have len: "length t = 2"
    by (simp add: t_def day_example)
  have in0: "t ! 0 \<in> set t" and in1: "t ! 1 \<in> set t"
    using len by simp_all
  have n0: "map_of (t ! 0) ''number_trips'' = Some (Num 2)"
    unfolding t_def day_example
    by (simp add: day_out_number_trips day_row_num_trips usecols_def
        day_sdrts_usecols_def day_example_sdrts_def)
  have n1: "map_of (t ! 1) ''number_trips'' = Some (Num 0)"
    unfolding t_def day_example
    by (simp add: day_out_number_trips day_row_num_trips usecols_def
        day_at_usecols_def day_at_defaults_def day_example_at_def)
  from day_made_trips_agrees [of "t ! 0" "[day_example_sdrts]" "[day_example_at]" 2] in0 n0
  have y: "map_of (t ! 0) ''made_trips'' = Some (Str ''Yes'')"
    by (simp add: t_def)
  from day_made_trips_agrees [of "t ! 1" "[day_example_sdrts]" "[day_example_at]" 0] in1 n1
  have no: "map_of (t ! 1) ''made_trips'' = Some (Str ''No'')"
    by (simp add: t_def)
  from in0 n0 y in1 n1 no show ?thesis
    unfolding t_def Let_def by blast
qed

section \<open>The person table: age and military rules\<close>

lemma persons_rows:
  assumes "out \<in> set (persons G sdrts at_df)"
  obtains r where "out = select persons_columns (rename persons_rename (persons_row G r))"
  using assms by (auto simp: persons_def)

lemma persons_out_age:
  "map_of (select persons_columns (rename persons_rename R)) ''age_category'' = Some (R ''age'')"
  by (simp add: map_of_select persons_columns_def rename_def persons_rename_def)

lemma persons_out_employment:
  "map_of (select persons_columns (rename persons_rename R)) ''employment_status''
     = Some (R ''employment'')"
  by (simp add: map_of_select persons_columns_def rename_def persons_rename_def)

lemma persons_steps_age: "run (persons_steps G) m ''age'' = m ''age''"
  by (simp add: persons_steps_def step_simps)

lemma persons_steps_employment:
  "run (persons_steps G) m ''employment'' =
     (if m ''age'' = Str ''Under 5 years old'' \<or> m ''age'' = Str ''5-15 years''
      then Str ''Not Applicable'' else m ''employment'')"
  by (simp add: persons_steps_def step_simps)

text \<open>
  Claim C7. Every row of the person table whose \<open>age_category\<close> is "Under 5 years old"
  or "5-15 years" has \<open>employment_status\<close> "Not Applicable": the first statement
  after the recoding assigns it and no later statement writes the column.
\<close>

theorem persons_child_employment:
  assumes "out \<in> set (persons G sdrts at_df)"
    and "map_of out ''age_category'' = Some (Str ''Under 5 years old'')
       \<or> map_of out ''age_category'' = Some (Str ''5-15 years'')"
  shows "map_of out ''employment_status'' = Some (Str ''Not Applicable'')"
proof -
  from assms(1) obtain r where
    out: "out = select persons_columns (rename persons_rename (persons_row G r))"
    by (rule persons_rows)
  define m where "m = recode persons_mappings r"
  from assms(2) have "m ''age'' = Str ''Under 5 years old'' \<or> m ''age'' = Str ''5-15 years''"
    by (simp add: out persons_out_age persons_row_def persons_steps_age m_def)
  then have "run (persons_steps G) m ''employment'' = Str ''Not Applicable''"
    by (simp add: persons_steps_employment)
  then show ?thesis
    by (simp add: out persons_out_employment persons_row_def m_def)
qed

lemma persons_mappings_distinct: "distinct (map fst persons_mappings)"
  by (simp add: persons_mappings_def)

lemma persons_recode_age: "recode persons_mappings r ''age'' = map_cell persons_map_age (r ''age'')"
  by (rule recode_field_at [OF persons_mappings_distinct]) (simp add: persons_mappings_def)

lemma persons_example_child_row:
  "persons G [persons_example_child] [] =
     [select persons_columns (rename persons_rename
        (persons_row G (usecols persons_sdrts_usecols persons_example_child)))]"
  by (simp add: persons_def persons_concat_def)

theorem persons_child_employment_witness:
  "(let t = persons example_geolib [persons_example_child] [] in
      t ! 0 \<in> set t
      \<and> map_of (t ! 0) ''age_category'' = Some (Str ''Under 5 years old'')
      \<and> map_of (t ! 0) ''employment_status'' = Some (Str ''Not Applicable''))"
proof -
  define t where "t = persons example_geolib [persons_example_child] []"
  have in0: "t ! 0 \<in> set t"
    by (simp add: t_def persons_example_child_row)
  have age: "map_of (t ! 0) ''age_category'' = Some (Str ''Under 5 years old'')"
    unfolding t_def persons_example_child_row
    by (simp add: persons_out_age persons_row_def persons_steps_age persons_recode_age
        usecols_def persons_sdrts_usecols_def persons_example_child_def map_cell_def
        persons_map_age_def)
  from persons_child_employment [of "t ! 0" example_geolib "[persons_example_child]" "[]"] in0 age
  have "map_of (t ! 0) ''employment_status'' = Some (Str ''Not Applicable'')"
    by (simp add: t_def)
  with in0 age show ?thesis
    unfolding t_def Let_def by blast
qed

lemma persons_steps_length: "length (persons_steps G) = 28"
  by (simp add: persons_steps_def)

lemma persons_military_rule:
  "persons_steps G ! 12 =
     loc (\<lambda>r. isin (r ''military'') [
               Str ''Active duty within the San Diego region'',
               Str ''Active duty outside of the San Diego region''])
        [
          ''job_type'', ''occupation'', ''industry'', ''hours_work'', ''commute_freq'',
          ''commute_mode'', ''work_flex'', ''work_park_pay'', ''work_park_cost_dk'',
          ''work_park_ease'', ''telecommute_freq'', ''commute_subsidy_none'',
          ''commute_subsidy_parking'', ''commute_subsidy_transit'', ''commute_subsidy_vanpool'',
          ''commute_subsidy_cash'', ''commute_subsidy_other'', ''commute_subsidy_specify'']
        (Str ''Not Applicable'')"
  by (simp add: persons_steps_def)

lemma persons_after_military_keeps:
  assumes "c \<notin> set [''second_home_shape'', ''school_shape'', ''second_school_shape'',
                      ''work_shape'', ''second_work_shape'']"
  shows "list_all (keeps c (Str ''Not Applicable'')) (drop 13 (persons_steps G))"
  using assms
  by (simp add: persons_steps_def keeps_loc keeps_fillna untouched_keeps untouched_set_point_wkt)

lemma persons_from_military_untouched:
  "list_all (untouched ''military'') (drop 12 (persons_steps G))"
  by (simp add: persons_steps_def untouched_loc untouched_fillna untouched_set_point_wkt)

lemma persons_row_military:
  "persons_row G r ''military'' = run (take 12 (persons_steps G)) (recode persons_mappings r) ''military''"
proof -
  have "run (persons_steps G) m = run (drop 12 (persons_steps G)) (run (take 12 (persons_steps G)) m)"
    for m
    using run_append [of "take 12 (persons_steps G)" "drop 12 (persons_steps G)" m] by simp
  then show ?thesis
    by (simp add: persons_row_def run_untouched [OF persons_from_military_untouched])
qed

lemma persons_row_active_duty:
  assumes mil: "persons_row G r ''military'' = Str ''Active duty within the San Diego region''
       \<or> persons_row G r ''military'' = Str ''Active duty outside of the San Diego region''"
    and f: "f \<in> set [''occupation'', ''industry'', ''hours_work'', ''commute_freq'',
          ''commute_mode'', ''work_park_pay'', ''work_park_cost_dk'', ''work_park_ease'',
          ''telecommute_freq'', ''commute_subsidy_none'', ''commute_subsidy_parking'',
          ''commute_subsidy_transit'', ''commute_subsidy_vanpool'', ''commute_subsidy_cash'',
          ''commute_subsidy_other'', ''commute_subsidy_specify'']"
  shows "persons_row G r f = Str ''Not Applicable''"
proof -
  define S where "S = run (take 12 (persons_steps G)) (recode persons_mappings r)"
  from mil have test: "isin (S ''military'') [
               Str ''Active duty within the San Diego region'',
               Str ''Active duty outside of the San Diego region'']"
    by (simp add: persons_row_military S_def isin_def)
  from f have hit: "(persons_steps G ! 12) S f = Str ''Not Applicable''"
    unfolding persons_military_rule loc_apply using test by auto
  from f have shape: "f \<notin> set [''second_home_shape'', ''school_shape'', ''second_school_shape'',
                      ''work_shape'', ''second_work_shape'']"
    by auto
  have "persons_row G r = run (drop (Suc 12) (persons_steps G)) ((persons_steps G ! 12) S)"
    unfolding persons_row_def S_def by (rule run_split) (simp add: persons_steps_length)
  moreover have "run (drop 13 (persons_steps G)) ((persons_steps G ! 12) S) f = Str ''Not Applicable''"
    using persons_after_military_keeps [OF shape, of G] hit by (rule run_keeps)
  ultimately show ?thesis
    by simp
qed

lemma persons_out_active_duty_fields:
  fixes R :: row
  defines "out \<equiv> select persons_columns (rename persons_rename R)"
  shows "map_of out ''occupation'' = Some (R ''occupation'')"
    and "map_of out ''industry'' = Some (R ''industry'')"
    and "map_of out ''hours_worked'' = Some (R ''hours_work'')"
    and "map_of out ''commute_frequency'' = Some (R ''commute_freq'')"
    and "map_of out ''commute_mode'' = Some (R ''commute_mode'')"
    and "map_of out ''work_parking_payment'' = Some (R ''work_park_pay'')"
    and "map_of out ''work_parking_cost_dk'' = Some (R ''work_park_cost_dk'')"
    and "map_of out ''work_parking_ease'' = Some (R ''work_park_ease'')"
    and "map_of out ''telecommute_frequency'' = Some (R ''telecommute_freq'')"
    and "map_of out ''commute_subsidy_none'' = Some (R ''commute_subsidy_none'')"
    and "map_of out ''commute_subsidy_parking'' = Some (R ''commute_subsidy_parking'')"
    and "map_of out ''commute_subsidy_transit'' = Some (R ''commute_subsidy_transit'')"
    and "map_of out ''commute_subsidy_vanpool'' = Some (R ''commute_subsidy_vanpool'')"
    and "map_of out ''commute_subsidy_cash'' = Some (R ''commute_subsidy_cash'')"
    and "map_of out ''commute_subsidy_other'' = Some (R ''commute_subsidy_other'')"
    and "map_of out ''commute_subsidy_specify'' = Some (R ''commute_subsidy_specify'')"
    and "map_of out ''military_status'' = Some (R ''military'')"
  unfolding out_def
  by (simp_all add: map_of_select persons_columns_def rename_def persons_rename_def)

text \<open>
  Claim C8. Every row of the person table whose \<open>military_status\<close> is one of the two
  active-duty labels has "Not Applicable" in occupation, industry, hours worked,
  commute frequency, commute mode, the three work-parking columns, telecommute
  frequency and all seven commute-subsidy columns. The military statement assigns the
  label; the statements after it, the one on \<open>commute_freq\<close> in
  \{"Never", "Not Applicable"\} among them, assign nothing but "Not Applicable" to
  these columns, so the source order leaves the assignment standing.
\<close>

theorem persons_active_duty_not_applicable:
  assumes "out \<in> set (persons G sdrts at_df)"
    and "map_of out ''military_status'' = Some (Str ''Active duty within the San Diego region'')
       \<or> map_of out ''military_status'' = Some (Str ''Active duty outside of the San Diego region'')"
  shows "list_all (\<lambda>field. map_of out field = Some (Str ''Not Applicable''))
     [''occupation'', ''industry'', ''hours_worked'', ''commute_frequency'', ''commute_mode'',
      ''work_parking_payment'', ''work_parking_cost_dk'', ''work_parking_ease'',
      ''telecommute_frequency'', ''commute_subsidy_none'', ''commute_subsidy_parking'',
      ''commute_subsidy_transit'', ''commute_subsidy_vanpool'', ''commute_subsidy_cash'',
      ''commute_subsidy_other'', ''commute_subsidy_specify'']"
proof -
  from assms(1) obtain r where
    out: "out = select persons_columns (rename persons_rename (persons_row G r))"
    by (rule persons_rows)
  from assms(2) have mil:
    "persons_row G r ''military'' = Str ''Active duty within the San Diego region''
       \<or> persons_row G r ''military'' = Str ''Active duty outside of the San Diego region''"
    by (simp add: out persons_out_active_duty_fields)
  note na = persons_row_active_duty [OF mil]
  show ?thesis
    unfolding out by (simp add: persons_out_active_duty_fields na)
qed

lemma persons_recode_employment:
  "recode persons_mappings r ''employment'' = map_cell persons_map_employment (r ''employment'')"
  by (rule recode_field_at [OF persons_mappings_distinct]) (simp add: persons_mappings_def)

lemma persons_recode_military:
  "recode persons_mappings r ''military'' = map_cell persons_map_military (r ''military'')"
  by (rule recode_field_at [OF persons_mappings_distinct]) (simp add: persons_mappings_def)

lemma persons_steps_military:
  "run (persons_steps G) m ''military'' =
     (if m ''age'' = Str ''Under 5 years old'' \<or> m ''age'' = Str ''5-15 years''
      then Str ''Not Applicable''
      else if m ''employment'' = Str ''Not currently employed'' then Str ''Not Applicable''
      else m ''military'')"
  by (simp add: persons_steps_def step_simps)

lemma persons_example_soldier_row:
  "persons G [persons_example_soldier] [] =
     [select persons_columns (rename persons_rename
        (persons_row G (usecols persons_sdrts_usecols persons_example_soldier)))]"
  by (simp add: persons_def persons_concat_def)

theorem persons_active_duty_not_applicable_witness:
  "(let t = persons example_geolib [persons_example_soldier] [] in
      t ! 0 \<in> set t
      \<and> map_of (t ! 0) ''military_status'' = Some (Str ''Active duty within the San Diego region'')
      \<and> list_all (\<lambda>field. map_of (t ! 0) field = Some (Str ''Not Applicable''))
           [''occupation'', ''industry'', ''hours_worked'', ''commute_frequency'', ''commute_mode'',
            ''work_parking_payment'', ''work_parking_cost_dk'', ''work_parking_ease'',
            ''telecommute_frequency'', ''commute_subsidy_none'', ''commute_subsidy_parking'',
            ''commute_subsidy_transit'', ''commute_subsidy_vanpool'', ''commute_subsidy_cash'',
            ''commute_subsidy_other'', ''commute_subsidy_specify''])"
proof -
  define t where "t = persons example_geolib [persons_example_soldier] []"
  have in0: "t ! 0 \<in> set t"
    by (simp add: t_def persons_example_soldier_row)
  have mil: "map_of (t ! 0) ''military_status'' = Some (Str ''Active duty within the San Diego region'')"
    unfolding t_def persons_example_soldier_row
    by (simp add: persons_out_active_duty_fields persons_row_def persons_steps_military
        persons_recode_age persons_recode_employment persons_recode_military
        usecols_def persons_sdrts_usecols_def persons_example_soldier_def map_cell_def
        persons_map_age_def persons_map_employment_def persons_map_military_def)
  from mil have mil':
    "map_of (t ! 0) ''military_status'' = Some (Str ''Active duty within the San Diego region'')
       \<or> map_of (t ! 0) ''military_status'' = Some (Str ''Active duty outside of the San Diego region'')"
    by (rule disjI1)
  have "t ! 0 \<in> set (persons example_geolib [persons_example_soldier] [])"
    using in0 by (simp add: t_def)
  from persons_active_duty_not_applicable [OF this mil'] in0 mil show ?thesis
    unfolding t_def Let_def by blast
qed

section \<open>The trip table: mode rules and weights\<close>

lemma trips_rows:
  assumes "out \<in> set (trips G sdrts at_df)"
  obtains r where "r \<in> set (trips_concat sdrts at_df)"
    and "out = select trips_columns (rename trips_rename (trips_row G r))"
  using assms by (auto simp: trips_def)

lemma trips_out_modes:
  fixes R :: row
  defines "out \<equiv> select trips_columns (rename trips_rename R)"
  shows "map_of out ''mode_1'' = Some (R ''mode1'')"
    and "map_of out ''mode_2'' = Some (R ''mode2'')"
    and "map_of out ''mode_3'' = Some (R ''mode3'')"
    and "map_of out ''mode_4'' = Some (R ''mode4'')"
  unfolding out_def
  by (simp_all add: map_of_select trips_columns_def rename_def trips_rename_def)

lemma trips_steps_modes:
  "run (trips_steps G) m ''mode1'' = m ''mode1''"
  "run (trips_steps G) m ''mode2'' = m ''mode2''"
  "run (trips_steps G) m ''mode3'' = m ''mode3''"
  "run (trips_steps G) m ''mode4'' = m ''mode4''"
  by (simp_all add: trips_steps_def peel_simps trips_missing_cols_def)

lemma trips_out_auto_fields:
  fixes R :: row
  defines "out \<equiv> select trips_columns (rename trips_rename R)"
  shows "map_of out ''toll_road'' = Some (R ''toll_no'')"
    and "map_of out ''toll_road_express'' = Some (R ''toll_express'')"
    and "map_of out ''driver'' = Some (R ''driver'')"
    and "map_of out ''parking_location'' = Some (R ''parklocation'')"
  unfolding out_def
  by (simp_all add: map_of_select trips_columns_def rename_def trips_rename_def)

lemma trips_nontaxi_auto: "isin x trips_auto_nontaxi_modes \<Longrightarrow> isin x trips_auto_modes"
  by (auto simp: isin_def trips_auto_nontaxi_modes_def trips_auto_modes_def)

lemma trips_steps_non_auto:
  assumes "\<not> isin (m ''mode1'') trips_auto_modes" and "\<not> isin (m ''mode2'') trips_auto_modes"
    and "\<not> isin (m ''mode3'') trips_auto_modes" and "\<not> isin (m ''mode4'') trips_auto_modes"
  shows "run (trips_steps G) m ''toll_no'' = Str ''Not Applicable''"
    and "run (trips_steps G) m ''toll_express'' = Str ''Not Applicable''"
    and "run (trips_steps G) m ''driver'' = Str ''Not Applicable''"
    and "run (trips_steps G) m ''parklocation'' = Str ''Not Applicable''"
proof -
  from assms have nontaxi:
    "\<not> isin (m ''mode1'') trips_auto_nontaxi_modes" "\<not> isin (m ''mode2'') trips_auto_nontaxi_modes"
    "\<not> isin (m ''mode3'') trips_auto_nontaxi_modes" "\<not> isin (m ''mode4'') trips_auto_nontaxi_modes"
    by (auto dest: trips_nontaxi_auto)
  show "run (trips_steps G) m ''toll_no'' = Str ''Not Applicable''"
    by (simp add: trips_steps_def peel_simps trips_missing_cols_def assms)
  show "run (trips_steps G) m ''toll_express'' = Str ''Not Applicable''"
    by (simp add: trips_steps_def peel_simps trips_missing_cols_def assms)
  show "run (trips_steps G) m ''driver'' = Str ''Not Applicable''"
    by (simp add: trips_steps_def peel_simps trips_missing_cols_def nontaxi)
  show "run (trips_steps G) m ''parklocation'' = Str ''Not Applicable''"
    by (simp add: trips_steps_def peel_simps trips_missing_cols_def nontaxi)
qed

text \<open>
  Claim C3. In every row of the trip table where none of \<open>mode_1\<close>, ...,
  \<open>mode_4\<close> is an auto mode (the fifteen labels of \<open>auto_modes\<close>: household
  vehicles 1 to 7, other household vehicle, rental car, carshare, other auto, work car,
  friends car and the two taxi labels), \<open>toll_road\<close>, \<open>toll_road_express\<close>,
  \<open>driver\<close> and \<open>parking_location\<close> are "Not Applicable". The driver and parking
  statement keys on \<open>auto_nontaxi_modes\<close>, a sublist of \<open>auto_modes\<close>, so it fires
  as well, and no later statement writes the four columns.
\<close>

theorem trips_non_auto_not_applicable:
  assumes "out \<in> set (trips G sdrts at_df)"
    and "\<not> isin (column out ''mode_1'') trips_auto_modes"
    and "\<not> isin (column out ''mode_2'') trips_auto_modes"
    and "\<not> isin (column out ''mode_3'') trips_auto_modes"
    and "\<not> isin (column out ''mode_4'') trips_auto_modes"
  shows "list_all (\<lambda>field. map_of out field = Some (Str ''Not Applicable''))
           [''toll_road'', ''toll_road_express'', ''driver'', ''parking_location'']"
proof -
  from assms(1) obtain r where
    out: "out = select trips_columns (rename trips_rename (trips_row G r))"
    by (rule trips_rows)
  define m where "m = recode trips_mappings r"
  have modes: "\<not> isin (m ''mode1'') trips_auto_modes" "\<not> isin (m ''mode2'') trips_auto_modes"
    "\<not> isin (m ''mode3'') trips_auto_modes" "\<not> isin (m ''mode4'') trips_auto_modes"
    using assms(2-5)
    by (simp_all add: out column_def trips_out_modes trips_row_def trips_steps_modes m_def)
  note na = trips_steps_non_auto [OF modes, of G]
  show ?thesis
    by (simp add: out trips_out_auto_fields trips_row_def na [unfolded m_def])
qed

lemma trips_mappings_distinct: "distinct (map fst trips_mappings)"
  by (simp add: trips_mappings_def)

lemma trips_recode_modes:
  "recode trips_mappings r ''mode1'' = map_cell trips_map_mode1 (r ''mode1'')"
  "recode trips_mappings r ''mode2'' = map_cell trips_map_mode2 (r ''mode2'')"
  "recode trips_mappings r ''mode3'' = map_cell trips_map_mode3 (r ''mode3'')"
  "recode trips_mappings r ''mode4'' = map_cell trips_map_mode4 (r ''mode4'')"
  by (rule recode_field_at [OF trips_mappings_distinct], simp add: trips_mappings_def)+

lemma trips_out_row_modes:
  fixes r :: row and G :: "(cell \<times> cell) geolib"
  defines "out \<equiv> select trips_columns (rename trips_rename (trips_row G r))"
  shows "column out ''mode_1'' = map_cell trips_map_mode1 (r ''mode1'')"
    and "column out ''mode_2'' = map_cell trips_map_mode2 (r ''mode2'')"
    and "column out ''mode_3'' = map_cell trips_map_mode3 (r ''mode3'')"
    and "column out ''mode_4'' = map_cell trips_map_mode4 (r ''mode4'')"
  unfolding out_def
  by (simp_all add: column_def trips_out_modes trips_row_def trips_steps_modes trips_recode_modes)

lemma trips_single_row:
  "trips G [r] [] = [select trips_columns (rename trips_rename (trips_row G (usecols trips_sdrts_usecols r)))]"
  by (simp add: trips_def trips_concat_def)

theorem trips_non_auto_not_applicable_witness:
  "(let t = trips example_geolib [trips_example_walk] [] in
      t ! 0 \<in> set t
      \<and> column (t ! 0) ''mode_1'' = Str ''Walk/jog/wheelchair''
      \<and> column (t ! 0) ''mode_2'' = Str ''Not Applicable''
      \<and> column (t ! 0) ''mode_3'' = Str ''Not Applicable''
      \<and> column (t ! 0) ''mode_4'' = Str ''Not Applicable''
      \<and> list_all (\<lambda>field. map_of (t ! 0) field = Some (Str ''Not Applicable''))
           [''toll_road'', ''toll_road_express'', ''driver'', ''parking_location''])"
proof -
  define t where "t = trips example_geolib [trips_example_walk] []"
  have in0: "t ! 0 \<in> set t"
    by (simp add: t_def trips_single_row)
  have m1: "column (t ! 0) ''mode_1'' = Str ''Walk/jog/wheelchair''"
    unfolding t_def trips_single_row
    by (simp add: trips_out_row_modes usecols_def trips_sdrts_usecols_def trips_example_walk_def
        map_cell_def trips_map_mode1_def)
  have m2: "column (t ! 0) ''mode_2'' = Str ''Not Applicable''"
    unfolding t_def trips_single_row
    by (simp add: trips_out_row_modes usecols_def trips_sdrts_usecols_def trips_example_walk_def
        map_cell_def trips_map_mode2_def)
  have m3: "column (t ! 0) ''mode_3'' = Str ''Not Applicable''"
    unfolding t_def trips_single_row
    by (simp add: trips_out_row_modes usecols_def trips_sdrts_usecols_def trips_example_walk_def
        map_cell_def trips_map_mode3_def)
  have m4: "column (t ! 0) ''mode_4'' = Str ''Not Applicable''"
    unfolding t_def trips_single_row
    by (simp add: trips_out_row_modes usecols_def trips_sdrts_usecols_def trips_example_walk_def
        map_cell_def trips_map_mode4_def)
  have "t ! 0 \<in> set (trips example_geolib [trips_example_walk] [])"
    using in0 by (simp add: t_def)
  moreover have "\<not> isin (column (t ! 0) ''mode_1'') trips_auto_modes"
    "\<not> isin (column (t ! 0) ''mode_2'') trips_auto_modes"
    "\<not> isin (column (t ! 0) ''mode_3'') trips_auto_modes"
    "\<not> isin (column (t ! 0) ''mode_4'') trips_auto_modes"
    by (simp_all add: m1 m2 m3 m4 isin_def trips_auto_modes_def)
  ultimately have "list_all (\<lambda>field. map_of (t ! 0) field = Some (Str ''Not Applicable''))
           [''toll_road'', ''toll_road_express'', ''driver'', ''parking_location'']"
    by (rule trips_non_auto_not_applicable)
  with in0 m1 m2 m3 m4 show ?thesis
    unfolding t_def Let_def by blast
qed

lemma trips_out_pay_fields:
  fixes R :: row
  defines "out \<equiv> select trips_columns (rename trips_rename R)"
  shows "map_of out ''airplane_cost_dk'' = Some (R ''airfare_cost_dk'')"
    and "map_of out ''rail_pay_type'' = Some (R ''railtype'')"
  unfolding out_def
  by (simp_all add: map_of_select trips_columns_def rename_def trips_rename_def)

lemma trips_recode_taxitype:
  "recode trips_mappings r ''taxitype'' = map_cell trips_map_taxitype (r ''taxitype'')"
  by (rule recode_field_at [OF trips_mappings_distinct]) (simp add: trips_mappings_def)

lemma trips_taxitype_not_airfare:
  "\<not> isin (map_cell trips_map_taxitype x)
       [Str ''Personally paid the airfare cost'', Str ''Employer paid 100%'']"
  using map_cell_range [of trips_map_taxitype x]
  by (auto simp: isin_def trips_map_taxitype_def)

lemma trips_steps_airfare_cost_dk:
  assumes "\<not> isin (m ''taxitype'')
       [Str ''Personally paid the airfare cost'', Str ''Employer paid 100%'']"
  shows "run (trips_steps G) m ''airfare_cost_dk'' = Str ''Not Applicable''"
proof -
  have na: "\<not> isin (Str ''Not Applicable'')
       [Str ''Personally paid the airfare cost'', Str ''Employer paid 100%'']"
    by (simp add: isin_def)
  show ?thesis
    by (simp add: trips_steps_def peel_simps trips_missing_cols_def assms na)
qed

text \<open>
  Claim C9. In every row of the trip table \<open>airplane_cost_dk\<close> is "Not Applicable".
  The statement that guards \<open>airfare_cost_dk\<close> tests \<open>taxitype\<close> against the two
  airfare labels "Personally paid the airfare cost" and "Employer paid 100%"; a cell
  of \<open>taxitype\<close> is null, a label of its code table or "Not Applicable", never one
  of the two, so the negated test holds in every row and nothing later writes the
  column.
\<close>

theorem trips_airplane_cost_dk_not_applicable:
  assumes "out \<in> set (trips G sdrts at_df)"
  shows "map_of out ''airplane_cost_dk'' = Some (Str ''Not Applicable'')"
proof -
  from assms obtain r where
    out: "out = select trips_columns (rename trips_rename (trips_row G r))"
    by (rule trips_rows)
  have "\<not> isin (recode trips_mappings r ''taxitype'')
       [Str ''Personally paid the airfare cost'', Str ''Employer paid 100%'']"
    by (simp only: trips_recode_taxitype trips_taxitype_not_airfare not_False_eq_True)
  then have "run (trips_steps G) (recode trips_mappings r) ''airfare_cost_dk'' = Str ''Not Applicable''"
    by (rule trips_steps_airfare_cost_dk)
  then show ?thesis
    by (simp add: out trips_out_pay_fields trips_row_def)
qed

theorem trips_airplane_cost_dk_not_applicable_witness:
  "(let t = trips example_geolib [trips_example_flight] [] in
      t ! 0 \<in> set t
      \<and> column (t ! 0) ''mode_1'' = Str ''Airplane''
      \<and> map_of (t ! 0) ''airplane_cost_dk'' = Some (Str ''Not Applicable''))"
proof -
  define t where "t = trips example_geolib [trips_example_flight] []"
  have in0: "t ! 0 \<in> set t"
    by (simp add: t_def trips_single_row)
  have m1: "column (t ! 0) ''mode_1'' = Str ''Airplane''"
    unfolding t_def trips_single_row
    by (simp add: trips_out_row_modes usecols_def trips_sdrts_usecols_def trips_example_flight_def
        map_cell_def trips_map_mode1_def)
  have "t ! 0 \<in> set (trips example_geolib [trips_example_flight] [])"
    using in0 by (simp add: t_def)
  then have "map_of (t ! 0) ''airplane_cost_dk'' = Some (Str ''Not Applicable'')"
    by (rule trips_airplane_cost_dk_not_applicable)
  with in0 m1 show ?thesis
    unfolding t_def Let_def by blast
qed

lemma trips_steps_railtype:
  assumes "\<not> isin (m ''mode1'') trips_rail_modes" and "\<not> isin (m ''mode2'') trips_rail_modes"
    and "\<not> isin (m ''mode3'') trips_rail_modes" and "\<not> isin (m ''mode4'') trips_rail_modes"
  shows "run (trips_steps G) m ''railtype'' = Str ''Not Applicable''"
  by (simp add: trips_steps_def peel_simps trips_missing_cols_def assms)

text \<open>
  Claim C10. In every row of the trip table where none of \<open>mode_1\<close>, ...,
  \<open>mode_4\<close> is "Bus", "Intercity bus" or "Express bus/Rapid", \<open>rail_pay_type\<close> is
  "Not Applicable": the list \<open>rail_modes\<close> of the rail statement holds the three bus
  labels. A trip by "Rail - Light" and "San Diego Coaster Line" that reports a rail fare
  type is such a row.
\<close>

theorem trips_rail_pay_type_keyed_on_bus:
  assumes "out \<in> set (trips G sdrts at_df)"
    and "\<not> isin (column out ''mode_1'') [Str ''Bus'', Str ''Intercity bus'', Str ''Express bus/Rapid'']"
    and "\<not> isin (column out ''mode_2'') [Str ''Bus'', Str ''Intercity bus'', Str ''Express bus/Rapid'']"
    and "\<not> isin (column out ''mode_3'') [Str ''Bus'', Str ''Intercity bus'', Str ''Express bus/Rapid'']"
    and "\<not> isin (column out ''mode_4'') [Str ''Bus'', Str ''Intercity bus'', Str ''Express bus/Rapid'']"
  shows "map_of out ''rail_pay_type'' = Some (Str ''Not Applicable'')"
proof -
  from assms(1) obtain r where
    out: "out = select trips_columns (rename trips_rename (trips_row G r))"
    by (rule trips_rows)
  define m where "m = recode trips_mappings r"
  have modes: "\<not> isin (m ''mode1'') trips_rail_modes" "\<not> isin (m ''mode2'') trips_rail_modes"
    "\<not> isin (m ''mode3'') trips_rail_modes" "\<not> isin (m ''mode4'') trips_rail_modes"
    using assms(2-5)
    by (simp_all add: out column_def trips_out_modes trips_row_def trips_steps_modes m_def
        trips_rail_modes_def)
  note na = trips_steps_railtype [OF modes, of G]
  show ?thesis
    by (simp add: out trips_out_pay_fields trips_row_def na [unfolded m_def])
qed

theorem trips_rail_pay_type_keyed_on_bus_witness:
  "(let t = trips example_geolib [trips_example_rail] [] in
      t ! 0 \<in> set t
      \<and> column (t ! 0) ''mode_1'' = Str ''Rail - Light''
      \<and> column (t ! 0) ''mode_2'' = Str ''San Diego Coaster Line''
      \<and> column (t ! 0) ''mode_3'' = Str ''Not Applicable''
      \<and> column (t ! 0) ''mode_4'' = Str ''Not Applicable''
      \<and> map_of (t ! 0) ''rail_pay_type'' = Some (Str ''Not Applicable''))"
proof -
  define t where "t = trips example_geolib [trips_example_rail] []"
  have in0: "t ! 0 \<in> set t"
    by (simp add: t_def trips_single_row)
  have m1: "column (t ! 0) ''mode_1'' = Str ''Rail - Light''"
    unfolding t_def trips_single_row
    by (simp add: trips_out_row_modes usecols_def trips_sdrts_usecols_def trips_example_rail_def
        map_cell_def trips_map_mode1_def)
  have m2: "column (t ! 0) ''mode_2'' = Str ''San Diego Coaster Line''"
    unfolding t_def trips_single_row
    by (simp add: trips_out_row_modes usecols_def trips_sdrts_usecols_def trips_example_rail_def
        map_cell_def trips_map_mode2_def)
  have m3: "column (t ! 0) ''mode_3'' = Str ''Not Applicable''"
    unfolding t_def trips_single_row
    by (simp add: trips_out_row_modes usecols_def trips_sdrts_usecols_def trips_example_rail_def
        map_cell_def trips_map_mode3_def)
  have m4: "column (t ! 0) ''mode_4'' = Str ''Not Applicable''"
    unfolding t_def trips_single_row
    by (simp add: trips_out_row_modes usecols_def trips_sdrts_usecols_def trips_example_rail_def
        map_cell_def trips_map_mode4_def)
  have "t ! 0 \<in> set (trips example_geolib [trips_example_rail] [])"
    using in0 by (simp add: t_def)
  moreover have
    "\<not> isin (column (t ! 0) ''mode_1'') [Str ''Bus'', Str ''Intercity bus'', Str ''Express bus/Rapid'']"
    "\<not> isin (column (t ! 0) ''mode_2'') [Str ''Bus'', Str ''Intercity bus'', Str ''Express bus/Rapid'']"
    "\<not> isin (column (t ! 0) ''mode_3'') [Str ''Bus'', Str ''Intercity bus'', Str ''Express bus/Rapid'']"
    "\<not> isin (column (t ! 0) ''mode_4'') [Str ''Bus'', Str ''Intercity bus'', Str ''Express bus/Rapid'']"
    by (simp_all add: m1 m2 m3 m4 isin_def)
  ultimately have "map_of (t ! 0) ''rail_pay_type'' = Some (Str ''Not Applicable'')"
    by (rule trips_rail_pay_type_keyed_on_bus)
  with in0 m1 m2 m3 m4 show ?thesis
    unfolding t_def Let_def by blast
qed

end
